theory Spec2Isabelle
  imports Main "HOL-Library.AList"
begin

section \<open>Python values, truthiness and exceptions\<close>

text \<open>
  The values that flow through \<^verbatim>\<open>discord/app/commands.py\<close>: parameter defaults, option
  defaults, payload values and resolved platform entities. \<open>PyEmpty\<close> is the sentinel
  \<^verbatim>\<open>inspect.Parameter.empty\<close>; \<open>PyEntity kind id\<close> is an entity (member, role, channel)
  returned by a guild lookup. A \<^verbatim>\<open>str\<close> among these values is a \<open>string\<close> whose
  characters are read as code points below 256.
\<close>

datatype pyval =
    PyNone
  | PyBool bool
  | PyInt int
  | PyStr string
  | PyEmpty
  | PyEntity string int

text \<open>Python truth value testing, as used by the \<^verbatim>\<open>or\<close> operator.\<close>

fun truthy :: "pyval \<Rightarrow> bool" where
  "truthy PyNone = False"
| "truthy (PyBool b) = b"
| "truthy (PyInt i) = (i \<noteq> 0)"
| "truthy (PyStr s) = (s \<noteq> [])"
| "truthy PyEmpty = True"
| "truthy (PyEntity k i) = True"

definition py_or :: "pyval \<Rightarrow> pyval \<Rightarrow> pyval" where
  "py_or a b = (if truthy a then a else b)"

text \<open>
  The exceptions the module raises or catches. \<open>ApplicationCommandError\<close>, \<open>CheckFailure\<close>
  and \<open>ApplicationCommandInvokeError\<close> form the command-error family caught by
  \<^verbatim>\<open>except ApplicationCommandError\<close>; \<open>CancelledError\<close> and \<open>SystemExit\<close> are not
  subclasses of \<^verbatim>\<open>Exception\<close>.
\<close>

datatype exn =
    CancelledError
  | SystemExit
  | ApplicationCommandError string
  | CheckFailure string
  | ApplicationCommandInvokeError exn
  | NotFound string
  | TypeError string
  | ValueError string
  | AttributeError string
  | IndexError string
  | ValidationError string
  | ClientException string
  | Exception string

fun is_ApplicationCommandError :: "exn \<Rightarrow> bool" where
  "is_ApplicationCommandError (ApplicationCommandError m) = True"
| "is_ApplicationCommandError (CheckFailure m) = True"
| "is_ApplicationCommandError (ApplicationCommandInvokeError e) = True"
| "is_ApplicationCommandError e = False"

fun is_Exception :: "exn \<Rightarrow> bool" where
  "is_Exception CancelledError = False"
| "is_Exception SystemExit = False"
| "is_Exception e = True"

section \<open>Validation rules\<close>

text \<open>
  A name handed to the validation is any object: a \<^verbatim>\<open>str\<close>, given by its code points, or
  an object of another type. The case of a code point is what Python's character
  database says of it; the database is not part of the sources and is the parameter
  \<open>case_of\<close>. It gives a code point at most one of the three cases.
\<close>

type_synonym code_point = nat

datatype char_case = Uppercase | Lowercase | Titlecase | Uncased

datatype name_arg = Str "code_point list" | Not_str

text \<open>
  \<^verbatim>\<open>str.islower()\<close>: false as soon as an uppercase or titlecase character is met,
  otherwise true when at least one lowercase character was seen. The flag is the scan's
  \<^verbatim>\<open>cased\<close> variable.
\<close>

fun islower_scan :: "(code_point \<Rightarrow> char_case) \<Rightarrow> bool \<Rightarrow> code_point list \<Rightarrow> bool" where
  "islower_scan case_of cased [] = cased"
| "islower_scan case_of cased (ch # rest) =
     (if case_of ch = Uppercase \<or> case_of ch = Titlecase then False
      else if \<not> cased \<and> case_of ch = Lowercase then islower_scan case_of True rest
      else islower_scan case_of cased rest)"

definition str_islower :: "(code_point \<Rightarrow> char_case) \<Rightarrow> code_point list \<Rightarrow> bool" where
  "str_islower case_of s = islower_scan case_of False s"

text \<open>
  \<^verbatim>\<open>validate_chat_input_name(name)\<close>: the four checks in the order of the source. The
  space is the code point 32.
\<close>

definition validate_chat_input_name :: "(code_point \<Rightarrow> char_case) \<Rightarrow> name_arg \<Rightarrow> exn + unit" where
  "validate_chat_input_name case_of name =
     (case name of
        Str s \<Rightarrow>
          if 32 \<in> set s then
            Inl (ValidationError ''Name of a chat input command cannot have spaces.'')
          else if \<not> str_islower case_of s then
            Inl (ValidationError ''Name of a chat input command must be lowercase.'')
          else if length s > 32 \<or> length s < 1 then
            Inl (ValidationError
              ''Name of a chat input command must be less than 32 characters and non empty.'')
          else Inr ()
      | Not_str \<Rightarrow> Inl (TypeError ''Name of a command must be a string.''))"

text \<open>
  A \<^verbatim>\<open>str\<close> held elsewhere in the model is a \<open>string\<close>, each character being a code point
  below 256; this is how such a value reaches the validation.
\<close>

definition as_name_arg :: "pyval \<Rightarrow> name_arg" where
  "as_name_arg v = (case v of PyStr s \<Rightarrow> Str (map of_char s) | _ \<Rightarrow> Not_str)"

text \<open>\<^verbatim>\<open>validate_chat_input_description(description)\<close>.\<close>

definition validate_chat_input_description :: "pyval \<Rightarrow> exn + unit" where
  "validate_chat_input_description description =
     (case description of
        PyStr s \<Rightarrow>
          if length s > 100 \<or> length s < 1 then
            Inl (ValidationError
              ''Description of a chat input command must be less than 100 characters and non empty.'')
          else Inr ()
      | _ \<Rightarrow> Inl (TypeError ''Description of a command must be a string.''))"

section \<open>Option model\<close>

text \<open>
  Modelled from the spec: the enumeration \<^verbatim>\<open>SlashCommandOptionType\<close> is imported from
  \<^verbatim>\<open>discord/enums.py\<close>, which is not among the sources. Its members carry the platform's
  numeric constants; the closed range from \<open>user\<close> to \<open>role\<close> holds exactly the user,
  channel and role types.
\<close>

datatype SlashCommandOptionType =
    sub_command
  | sub_command_group
  | string_type
  | integer_type
  | boolean_type
  | user
  | channel
  | role
  | mentionable
  | number_type

fun option_type_value :: "SlashCommandOptionType \<Rightarrow> int" where
  "option_type_value sub_command = 1"
| "option_type_value sub_command_group = 2"
| "option_type_value string_type = 3"
| "option_type_value integer_type = 4"
| "option_type_value boolean_type = 5"
| "option_type_value user = 6"
| "option_type_value channel = 7"
| "option_type_value role = 8"
| "option_type_value mentionable = 9"
| "option_type_value number_type = 10"

fun option_type_name :: "SlashCommandOptionType \<Rightarrow> string" where
  "option_type_name sub_command = ''sub_command''"
| "option_type_name sub_command_group = ''sub_command_group''"
| "option_type_name string_type = ''string''"
| "option_type_name integer_type = ''integer''"
| "option_type_name boolean_type = ''boolean''"
| "option_type_name user = ''user''"
| "option_type_name channel = ''channel''"
| "option_type_name role = ''role''"
| "option_type_name mentionable = ''mentionable''"
| "option_type_name number_type = ''number''"

text \<open>
  What a parameter annotation can be: nothing, a Python type (or a \<^verbatim>\<open>typing.Union\<close> of
  types, \<^verbatim>\<open>Optional[T]\<close> being \<^verbatim>\<open>Union[T, None]\<close>), a member of the enumeration, or an
  explicit \<^verbatim>\<open>Option\<close> instance.
\<close>

datatype pytype = TStr | TInt | TBool | TFloat | TNone | TClass string | TUnion "pytype list"

datatype type_arg = EnumMember SlashCommandOptionType | Datatype pytype

record OptionChoice =
  choice_name :: pyval
  choice_value :: pyval

definition OptionChoice_init :: "pyval \<Rightarrow> pyval \<Rightarrow> OptionChoice" where
  "OptionChoice_init nm v = \<lparr>choice_name = nm, choice_value = py_or v nm\<rparr>"

datatype raw_choice = IsChoice OptionChoice | RawChoice pyval

record Option =
  name :: "string option"
  description :: string
  input_type :: SlashCommandOptionType
  required :: bool
  choices :: "OptionChoice list"
  default :: pyval

text \<open>
  \<^verbatim>\<open>Option.__init__(input_type, description, **kwargs)\<close>. The table
  \<^verbatim>\<open>SlashCommandOptionType.from_datatype\<close> is not among the sources and is the parameter
  \<open>from_datatype\<close>; it may raise. The keyword arguments are passed with the defaults the
  source pops them with.
\<close>

definition Option_init ::
  "(pytype \<Rightarrow> exn + SlashCommandOptionType) \<Rightarrow> type_arg \<Rightarrow> string option \<Rightarrow>
     string option \<Rightarrow> bool \<Rightarrow> raw_choice list \<Rightarrow> pyval \<Rightarrow> exn + Option" where
  "Option_init from_datatype ty desc kw_name kw_required kw_choices kw_default =
     (case (case ty of EnumMember t \<Rightarrow> Inr t | Datatype d \<Rightarrow> from_datatype d) of
        Inl e \<Rightarrow> Inl e
      | Inr t \<Rightarrow>
          Inr \<lparr>Option.name = kw_name,
               description =
                 (case desc of
                    None \<Rightarrow> ''No description provided''
                  | Some d \<Rightarrow> if d \<noteq> [] then d else ''No description provided''),
               input_type = t,
               required = kw_required,
               choices =
                 map (\<lambda>c. case c of IsChoice oc \<Rightarrow> oc | RawChoice v \<Rightarrow> OptionChoice_init v PyNone)
                   kw_choices,
               default = kw_default\<rparr>)"

section \<open>Option builder\<close>

text \<open>
  A parameter annotation is a type or an explicit \<^verbatim>\<open>Option\<close> instance. Such an instance is
  an object: the builder assigns to its attributes in place and appends the object itself,
  and one instance may annotate several parameters. The instances live in a store and an
  annotation holds a reference into it.
\<close>

type_synonym ref = nat

type_synonym option_store = "ref \<Rightarrow> Option"

datatype annotation =
    Type_annotation type_arg
  | Option_annotation ref

text \<open>
  A parameter of the callback's signature. The annotation \<open>None\<close> and the default
  \<open>PyEmpty\<close> stand for \<^verbatim>\<open>inspect.Parameter.empty\<close>.
\<close>

record Parameter =
  annotation :: "annotation option"
  default_value :: pyval

text \<open>\<^verbatim>\<open>SlashCommand._is_typing_optional\<close>: a union one of whose arguments is \<^verbatim>\<open>NoneType\<close>.\<close>

fun is_typing_optional :: "annotation \<Rightarrow> bool" where
  "is_typing_optional (Type_annotation (Datatype (TUnion args))) = (TNone \<in> set args)"
| "is_typing_optional a = False"

text \<open>The attribute \<^verbatim>\<open>__args__\<close> of a union annotation.\<close>

fun union_args :: "annotation \<Rightarrow> pytype list" where
  "union_args (Type_annotation (Datatype (TUnion args))) = args"
| "union_args a = []"

text \<open>
  The value of the variable \<^verbatim>\<open>option\<close> in the loop of \<^verbatim>\<open>parse_options\<close>: still the
  annotation, or an \<^verbatim>\<open>Option\<close> the builder has just made. An element of
  \<^verbatim>\<open>final_options\<close> is an \<^verbatim>\<open>Option\<close> the builder made, which nothing else refers to, or
  the annotation's own instance.
\<close>

datatype option_var = Annotation annotation | Built Option

datatype option_entry = New_option Option | Annotation_object ref

text \<open>
  The last three statements of the loop body, as they change the option object: the
  default, the empty sentinel, the name.
\<close>

definition finish_option :: "string \<Rightarrow> pyval \<Rightarrow> Option \<Rightarrow> Option" where
  "finish_option p_name p_default opt =
     (let opt1 = opt\<lparr>default := py_or (default opt) p_default\<rparr>;
          opt2 = (if default opt1 = PyEmpty then opt1\<lparr>default := PyNone\<rparr> else opt1);
          opt3 = (if Option.name opt2 = None
                  then opt2\<lparr>Option.name := Some p_name\<rparr> else opt2)
      in opt3)"

text \<open>
  One round of the loop of \<^verbatim>\<open>parse_options\<close>: the store afterwards, and the element
  appended or the exception of the \<^verbatim>\<open>Option\<close> constructor. The variable \<^verbatim>\<open>option\<close> of
  the source is \<open>option1\<close>, \<open>option2\<close>, \<open>option3\<close> after each of its first three
  statements.
\<close>

definition parse_option ::
  "(pytype \<Rightarrow> exn + SlashCommandOptionType) \<Rightarrow> string \<Rightarrow> Parameter \<Rightarrow> option_store \<Rightarrow>
     option_store \<times> (exn + option_entry)" where
  "parse_option from_datatype p_name p_obj store =
     (let option1 = (case annotation p_obj of
                       None \<Rightarrow> Type_annotation (Datatype TStr)
                     | Some a \<Rightarrow> a);
          option2 =
            (if is_typing_optional option1 then
               (case union_args option1 of
                  [] \<Rightarrow> Inl (IndexError ''tuple index out of range'')
                | a # rest \<Rightarrow>
                    map_sum id Built
                      (Option_init from_datatype (Datatype a)
                         (Some ''No description provided'') None False [] PyNone))
             else Inr (Annotation option1));
          option3 =
            (case option2 of
               Inl e \<Rightarrow> Inl e
             | Inr (Built opt) \<Rightarrow> Inr (New_option opt)
             | Inr (Annotation (Option_annotation r)) \<Rightarrow> Inr (Annotation_object r)
             | Inr (Annotation (Type_annotation ty)) \<Rightarrow>
                 (case Option_init from_datatype ty (Some ''No description provided'')
                         None True [] PyNone of
                    Inl e \<Rightarrow> Inl e
                  | Inr opt \<Rightarrow>
                      Inr (New_option
                             (if default_value p_obj \<noteq> PyEmpty
                              then opt\<lparr>required := False\<rparr> else opt))))
      in case option3 of
           Inl e \<Rightarrow> (store, Inl e)
         | Inr (New_option opt) \<Rightarrow>
             (store, Inr (New_option (finish_option p_name (default_value p_obj) opt)))
         | Inr (Annotation_object r) \<Rightarrow>
             (store(r := finish_option p_name (default_value p_obj) (store r)),
              Inr (Annotation_object r)))"

fun parse_option_loop ::
  "(pytype \<Rightarrow> exn + SlashCommandOptionType) \<Rightarrow> (string \<times> Parameter) list \<Rightarrow>
     option_entry list \<Rightarrow> option_store \<Rightarrow> option_store \<times> (exn + option_entry list)" where
  "parse_option_loop from_datatype [] final_options store = (store, Inr final_options)"
| "parse_option_loop from_datatype ((p_name, p_obj) # params) final_options store =
     (case parse_option from_datatype p_name p_obj store of
        (store1, Inl e) \<Rightarrow> (store1, Inl e)
      | (store1, Inr entry) \<Rightarrow>
          parse_option_loop from_datatype params (final_options @ [entry]) store1)"

text \<open>
  \<^verbatim>\<open>SlashCommand.parse_options(params)\<close>; \<open>has_cog\<close> is \<^verbatim>\<open>self.cog is not None\<close> and
  \<open>cmd_name\<close> is \<^verbatim>\<open>self.name\<close>.
\<close>

definition parse_options ::
  "(pytype \<Rightarrow> exn + SlashCommandOptionType) \<Rightarrow> bool \<Rightarrow> string \<Rightarrow>
     (string \<times> Parameter) list \<Rightarrow> option_store \<Rightarrow>
     option_store \<times> (exn + option_entry list)" where
  \<open>parse_options from_datatype has_cog cmd_name params store =
     (case (if has_cog then
              (case params of
                 [] \<Rightarrow> Inl (ClientException
                         (''Callback for '' @ cmd_name @ '' command is missing "self" parameter.''))
               | _ # rest \<Rightarrow> Inr rest)
            else Inr params) of
        Inl e \<Rightarrow> (store, Inl e)
      | Inr params1 \<Rightarrow>
          (case params1 of
             [] \<Rightarrow> (store, Inl (ClientException
                     (''Callback for '' @ cmd_name @ '' command is missing "ctx" parameter.'')))
           | _ # params2 \<Rightarrow> parse_option_loop from_datatype params2 [] store))\<close>

text \<open>The options a list of elements stands for, read in a given store.\<close>

definition options_in :: "option_store \<Rightarrow> option_entry list \<Rightarrow> Option list" where
  "options_in store entries =
     map (\<lambda>entry. case entry of New_option opt \<Rightarrow> opt | Annotation_object r \<Rightarrow> store r) entries"



section \<open>Invocation context and effects\<close>

text \<open>
  The interaction context: the two fields the module assigns (\<^verbatim>\<open>ctx.command\<close>, holding
  the bound command's name, and \<^verbatim>\<open>ctx.command_failed\<close>) and the list
  \<^verbatim>\<open>ctx.interaction.data.get("options", [])\<close> of supplied name/value pairs.
\<close>

record InteractionContext =
  command :: "string option"
  command_failed :: bool
  data_options :: "(string \<times> pyval) list"

type_synonym kwargs = "(string option \<times> pyval) list"

text \<open>
  What the outside world observes of a run, in order: hooks and handlers awaited, the
  entry into \<^verbatim>\<open>call_after_hooks\<close>, the callback called with its keyword arguments,
  events given to \<^verbatim>\<open>bot.dispatch\<close>, and lookups made through \<^verbatim>\<open>get_or_fetch\<close>.
\<close>

datatype hook_site = Command_site | Cog_site | Bot_site

datatype event =
    Before_hook hook_site
  | After_hooks_entered
  | After_hook hook_site
  | Error_handler hook_site
  | Callback_called kwargs
  | Dispatched string InteractionContext exn
  | Fetched string int

record state =
  ctx :: InteractionContext
  trace :: "event list"

text \<open>
  A coroutine of the module: it transforms the state and returns a value or raises.
\<close>

type_synonym 'a io = "state \<Rightarrow> state \<times> (exn + 'a)"

definition returns :: "'a \<Rightarrow> 'a io" where
  "returns x = (\<lambda>s. (s, Inr x))"

definition raise :: "exn \<Rightarrow> 'a io" where
  "raise e = (\<lambda>s. (s, Inl e))"

definition bind :: "'a io \<Rightarrow> ('a \<Rightarrow> 'b io) \<Rightarrow> 'b io" where
  "bind m f = (\<lambda>s. case m s of (s1, Inl e) \<Rightarrow> (s1, Inl e) | (s1, Inr x) \<Rightarrow> f x s1)"

definition emit :: "event \<Rightarrow> unit io" where
  "emit ev = (\<lambda>s. (s\<lparr>trace := trace s @ [ev]\<rparr>, Inr ()))"

text \<open>Awaiting user code (a hook, a check, a handler): its outcome on the current context.\<close>

definition await :: "(InteractionContext \<Rightarrow> exn + 'a) \<Rightarrow> 'a io" where
  "await f = (\<lambda>s. (s, f (ctx s)))"

text \<open>\<^verbatim>\<open>try: body finally: cleanup\<close>: a fault of the cleanup replaces the body's outcome.\<close>

definition try_finally :: "'a io \<Rightarrow> 'b io \<Rightarrow> 'a io" where
  "try_finally body cleanup =
     (\<lambda>s. case body s of
             (s1, r) \<Rightarrow> (case cleanup s1 of (s2, Inl e) \<Rightarrow> (s2, Inl e) | (s2, Inr u) \<Rightarrow> (s2, r)))"

text \<open>\<^verbatim>\<open>try: body except NotFound: handler\<close>.\<close>

definition except_NotFound :: "'a io \<Rightarrow> 'a io \<Rightarrow> 'a io" where
  "except_NotFound body handler =
     (\<lambda>s. case body s of (s1, Inl (NotFound m)) \<Rightarrow> handler s1 | (s1, r) \<Rightarrow> (s1, r))"

section \<open>Commands, cogs and the bot\<close>

text \<open>
  A cog: its truth value as an object, and its three overridable hooks; \<open>None\<close> is what
  \<^verbatim>\<open>_get_overridden_method\<close> returns for a hook the cog does not override.
\<close>

record Cog =
  cog_name :: string
  cog_truth :: bool
  cog_before_invoke :: "(InteractionContext \<Rightarrow> exn + pyval) option"
  cog_after_invoke :: "(InteractionContext \<Rightarrow> exn + pyval) option"
  cog_command_error :: "(InteractionContext \<Rightarrow> exn \<Rightarrow> exn + pyval) option"

text \<open>
  An object a hook may be called with as its first argument: its name and its truth
  value, which \<^verbatim>\<open>if instance:\<close> tests.
\<close>

record pyinstance =
  object_name :: string
  object_truth :: bool

text \<open>
  A command-local hook (\<^verbatim>\<open>_before_invoke\<close>, \<^verbatim>\<open>_after_invoke\<close>): \<open>hook_self\<close> is its
  \<^verbatim>\<open>__self__\<close> when it is a bound method; \<open>hook_run\<close> takes the instance it is called
  with, if any.
\<close>

record local_hook =
  hook_self :: "pyinstance option"
  hook_run :: "pyinstance option \<Rightarrow> InteractionContext \<Rightarrow> exn + pyval"

text \<open>
  A function object: its \<^verbatim>\<open>__name__\<close>, whether it is a coroutine function, its signature,
  its \<^verbatim>\<open>__commands_checks__\<close> attribute if set, and what calling it with the context,
  further positional arguments and keyword arguments does.
\<close>

record pyfunc =
  func_name :: string
  is_coroutine :: bool
  parameters :: "(string \<times> Parameter) list"
  commands_checks :: "(InteractionContext \<Rightarrow> exn + bool) list option"
  run :: "InteractionContext \<Rightarrow> pyval list \<Rightarrow> kwargs \<Rightarrow> exn + pyval"

record ApplicationCommand =
  name :: string
  description :: string
  callback :: pyfunc
  guild_ids :: "int list option"
  cog :: "Cog option"
  checks :: "(InteractionContext \<Rightarrow> exn + bool) list"
  before_invoke_hook :: "local_hook option"
  after_invoke_hook :: "local_hook option"
  on_error :: "(string option \<Rightarrow> InteractionContext \<Rightarrow> exn \<Rightarrow> exn + pyval) option"

record SlashCommand = ApplicationCommand +
  is_subcommand :: bool
  options :: "Option list"

record Bot =
  bot_can_run :: "InteractionContext \<Rightarrow> exn + bool"
  bot_before_invoke :: "(InteractionContext \<Rightarrow> exn + pyval) option"
  bot_after_invoke :: "(InteractionContext \<Rightarrow> exn + pyval) option"

section \<open>Command base: wrappers, hooks, preparation, invocation, error dispatch\<close>

text \<open>\<^verbatim>\<open>wrap_callback(coro)\<close>.\<close>

definition wrap_callback :: "pyval io \<Rightarrow> pyval io" where
  "wrap_callback coro =
     (\<lambda>s. case coro s of
             (s1, Inr ret) \<Rightarrow> (s1, Inr ret)
           | (s1, Inl exc) \<Rightarrow>
               if is_ApplicationCommandError exc then (s1, Inl exc)
               else if exc = CancelledError then (s1, Inr PyNone)
               else if is_Exception exc then (s1, Inl (ApplicationCommandInvokeError exc))
               else (s1, Inl exc))"

definition run_hook :: "event \<Rightarrow> (InteractionContext \<Rightarrow> exn + pyval) \<Rightarrow> unit io" where
  "run_hook ev hook = bind (emit ev) (\<lambda>u. bind (await hook) (\<lambda>r. returns ()))"

text \<open>
  \<^verbatim>\<open>getattr(hook, '__self__', cog)\<close>: the instance of a command-local hook, the cog
  standing in when the hook is a plain function.
\<close>

definition hook_instance :: "local_hook \<Rightarrow> Cog option \<Rightarrow> pyinstance option" where
  "hook_instance h c =
     (case hook_self h of
        Some i \<Rightarrow> Some i
      | None \<Rightarrow> map_option (\<lambda>g. \<lparr>object_name = cog_name g, object_truth = cog_truth g\<rparr>) c)"

text \<open>
  \<^verbatim>\<open>if instance: await hook(instance, ctx) else: await hook(ctx)\<close>: the hook gets the
  instance only when there is one and it is true.
\<close>

definition call_local_hook :: "local_hook \<Rightarrow> Cog option \<Rightarrow> InteractionContext \<Rightarrow> exn + pyval" where
  "call_local_hook h c =
     (case hook_instance h c of
        None \<Rightarrow> hook_run h None
      | Some i \<Rightarrow> if object_truth i then hook_run h (Some i) else hook_run h None)"

text \<open>\<^verbatim>\<open>ApplicationCommand.call_before_hooks(ctx)\<close>.\<close>

definition call_before_hooks :: "'a ApplicationCommand_scheme \<Rightarrow> Bot \<Rightarrow> unit io" where
  "call_before_hooks self the_bot =
     bind (case before_invoke_hook self of
             None \<Rightarrow> returns ()
           | Some h \<Rightarrow> run_hook (Before_hook Command_site) (call_local_hook h (cog self)))
       (\<lambda>u. bind (case cog self of
                    None \<Rightarrow> returns ()
                  | Some c \<Rightarrow> (case cog_before_invoke c of
                                 None \<Rightarrow> returns ()
                               | Some hook \<Rightarrow> run_hook (Before_hook Cog_site) hook))
         (\<lambda>u. case bot_before_invoke the_bot of
                 None \<Rightarrow> returns ()
               | Some hook \<Rightarrow> run_hook (Before_hook Bot_site) hook))"

text \<open>
  \<^verbatim>\<open>ApplicationCommand.call_after_hooks(ctx)\<close>. The event \<open>After_hooks_entered\<close> marks
  each call of the function, whether or not any hook is registered.
\<close>

definition call_after_hooks :: "'a ApplicationCommand_scheme \<Rightarrow> Bot \<Rightarrow> unit io" where
  "call_after_hooks self the_bot =
     bind (emit After_hooks_entered)
       (\<lambda>u. bind (case after_invoke_hook self of
                    None \<Rightarrow> returns ()
                  | Some h \<Rightarrow> run_hook (After_hook Command_site) (call_local_hook h (cog self)))
         (\<lambda>u. bind (case cog self of
                      None \<Rightarrow> returns ()
                    | Some c \<Rightarrow> (case cog_after_invoke c of
                                   None \<Rightarrow> returns ()
                                 | Some hook \<Rightarrow> run_hook (After_hook Cog_site) hook))
           (\<lambda>u. case bot_after_invoke the_bot of
                   None \<Rightarrow> returns ()
                 | Some hook \<Rightarrow> run_hook (After_hook Bot_site) hook)))"

text \<open>\<^verbatim>\<open>hooked_wrapped_callback(command, ctx, coro)\<close>.\<close>

definition hooked_wrapped_callback ::
  "'a ApplicationCommand_scheme \<Rightarrow> Bot \<Rightarrow> pyval io \<Rightarrow> pyval io" where
  "hooked_wrapped_callback self the_bot coro =
     try_finally
       (\<lambda>s. case coro s of
               (s1, Inr ret) \<Rightarrow> (s1, Inr ret)
             | (s1, Inl exc) \<Rightarrow>
                 if is_ApplicationCommandError exc then (s1, Inl exc)
                 else if exc = CancelledError then (s1, Inr PyNone)
                 else if is_Exception exc then (s1, Inl (ApplicationCommandInvokeError exc))
                 else (s1, Inl exc))
       (call_after_hooks self the_bot)"

text \<open>
  Modelled from the spec: \<^verbatim>\<open>async_all\<close> is imported from \<^verbatim>\<open>discord/utils.py\<close>, which is
  not among the sources. The predicates are awaited in order; a false result yields false
  and a raising predicate raises.
\<close>

fun async_all :: "(InteractionContext \<Rightarrow> exn + bool) list \<Rightarrow> bool io" where
  "async_all [] s = (s, Inr True)"
| "async_all (predicate # rest) s =
     (case predicate (ctx s) of
        Inl e \<Rightarrow> (s, Inl e)
      | Inr elem \<Rightarrow> if \<not> elem then (s, Inr False) else async_all rest s)"

text \<open>\<^verbatim>\<open>ApplicationCommand.can_run(ctx)\<close>.\<close>

definition can_run :: "'a ApplicationCommand_scheme \<Rightarrow> Bot \<Rightarrow> bool io" where
  "can_run self the_bot =
     bind (await (bot_can_run the_bot))
       (\<lambda>ok. if \<not> ok then
                raise (CheckFailure
                  (''The global check functions for command '' @ name self @ '' failed.''))
              else if checks self = [] then returns True
              else async_all (checks self))"

text \<open>\<^verbatim>\<open>ApplicationCommand.prepare(ctx)\<close>.\<close>

definition prepare :: "'a ApplicationCommand_scheme \<Rightarrow> Bot \<Rightarrow> unit io" where
  "prepare self the_bot =
     bind (\<lambda>s. (s\<lparr>ctx := (ctx s)\<lparr>command := Some (name self)\<rparr>\<rparr>, Inr ()))
       (\<lambda>u. bind (can_run self the_bot)
         (\<lambda>ok. if \<not> ok then
                  raise (CheckFailure
                    (''The check functions for the command '' @ name self @ '' failed''))
                else call_before_hooks self the_bot))"

text \<open>
  \<^verbatim>\<open>ApplicationCommand.invoke(ctx)\<close>; \<open>private_invoke\<close> is the method \<^verbatim>\<open>_invoke\<close> of the
  command's class.
\<close>

definition invoke :: "'a ApplicationCommand_scheme \<Rightarrow> Bot \<Rightarrow> pyval io \<Rightarrow> unit io" where
  "invoke self the_bot private_invoke =
     bind (prepare self the_bot)
       (\<lambda>u. bind (hooked_wrapped_callback self the_bot private_invoke) (\<lambda>r. returns ()))"

text \<open>\<^verbatim>\<open>ApplicationCommand.dispatch_error(ctx, error)\<close>.\<close>

definition dispatch_error :: "'a ApplicationCommand_scheme \<Rightarrow> exn \<Rightarrow> unit io" where
  "dispatch_error self error =
     bind (\<lambda>s. (s\<lparr>ctx := (ctx s)\<lparr>command_failed := True\<rparr>\<rparr>, Inr ()))
       (\<lambda>u. bind (case on_error self of
                    None \<Rightarrow> returns PyNone
                  | Some coro \<Rightarrow>
                      wrap_callback
                        (bind (emit (Error_handler Command_site))
                           (\<lambda>u. await (\<lambda>c. coro (map_option cog_name (cog self)) c error))))
         (\<lambda>r. try_finally
                 (case cog self of
                    None \<Rightarrow> returns ()
                  | Some c \<Rightarrow>
                      (case cog_command_error c of
                         None \<Rightarrow> returns ()
                       | Some local \<Rightarrow>
                           bind (wrap_callback
                                   (bind (emit (Error_handler Cog_site))
                                      (\<lambda>u. await (\<lambda>c. local c error))))
                             (\<lambda>r. returns ())))
                 (\<lambda>s. emit (Dispatched ''application_command_error'' (ctx s) error) s)))"

section \<open>Slash command invocation\<close>

text \<open>
  The collaborators of \<^verbatim>\<open>SlashCommand._invoke\<close> that are not among the sources: what
  \<^verbatim>\<open>get_or_fetch(ctx.guild, attr, id)\<close> yields, and the built-in \<^verbatim>\<open>int\<close> on a payload
  value.
\<close>

record environment =
  guild_lookup :: "string \<Rightarrow> int \<Rightarrow> exn + pyval"
  py_int :: "pyval \<Rightarrow> exn + int"

definition get_or_fetch :: "environment \<Rightarrow> string \<Rightarrow> int \<Rightarrow> pyval io" where
  "get_or_fetch env attr ident =
     bind (emit (Fetched attr ident)) (\<lambda>u s. (s, guild_lookup env attr ident))"

definition int_of :: "environment \<Rightarrow> pyval \<Rightarrow> int io" where
  "int_of env v = (\<lambda>s. (s, py_int env v))"

text \<open>
  The body of the first loop of \<^verbatim>\<open>SlashCommand._invoke\<close> for one supplied pair.
  \<^verbatim>\<open>utils.find\<close> returns the first matching option or \<^verbatim>\<open>None\<close>, on which the attribute
  access fails.
\<close>

definition invoke_arg ::
  "environment \<Rightarrow> Option list \<Rightarrow> string \<times> pyval \<Rightarrow> kwargs \<Rightarrow> kwargs io" where
  "invoke_arg env opts arg kw =
     (case find (\<lambda>x. Option.name x = Some (fst arg)) opts of
        None \<Rightarrow> raise (AttributeError ''NoneType object has no attribute input_type'')
      | Some op \<Rightarrow>
          bind
            (if option_type_value user \<le> option_type_value (input_type op)
                \<and> option_type_value (input_type op) \<le> option_type_value role
             then
               (let nm = (if option_type_name (input_type op) = ''user'' then ''member''
                          else option_type_name (input_type op))
                in bind (int_of env (snd arg)) (\<lambda>i. get_or_fetch env nm i))
             else if input_type op = mentionable then
               except_NotFound
                 (bind (int_of env (snd arg)) (\<lambda>i. get_or_fetch env ''member'' i))
                 (bind (int_of env (snd arg)) (\<lambda>i. get_or_fetch env ''role'' i))
             else returns (snd arg))
            (\<lambda>a. returns (AList.update (Option.name op) a kw)))"

fun invoke_args ::
  "environment \<Rightarrow> Option list \<Rightarrow> (string \<times> pyval) list \<Rightarrow> kwargs \<Rightarrow> kwargs io" where
  "invoke_args env opts [] kw = returns kw"
| "invoke_args env opts (arg # rest) kw =
     bind (invoke_arg env opts arg kw) (\<lambda>kw1. invoke_args env opts rest kw1)"

text \<open>The second loop: every option whose name is not yet a key gets its default.\<close>

fun fill_defaults :: "Option list \<Rightarrow> kwargs \<Rightarrow> kwargs" where
  "fill_defaults [] kw = kw"
| "fill_defaults (opt # rest) kw =
     fill_defaults rest
       (if Option.name opt \<notin> fst ` set kw
        then AList.update (Option.name opt) (default opt) kw else kw)"

text \<open>
  \<^verbatim>\<open>await self.callback(ctx, **kwargs)\<close>: a key that is not a string is a \<^verbatim>\<open>TypeError\<close>
  of the call itself.
\<close>

definition call_callback :: "pyfunc \<Rightarrow> pyval list \<Rightarrow> kwargs \<Rightarrow> pyval io" where
  "call_callback func args kw =
     (if None \<in> fst ` set kw then raise (TypeError ''keywords must be strings'')
      else bind (emit (Callback_called kw)) (\<lambda>u. await (\<lambda>c. run func c args kw)))"

text \<open>\<^verbatim>\<open>SlashCommand._invoke(ctx)\<close>.\<close>

definition SlashCommand_private_invoke :: "environment \<Rightarrow> SlashCommand \<Rightarrow> pyval io" where
  "SlashCommand_private_invoke env self =
     bind (\<lambda>s. invoke_args env (options self) (data_options (ctx s)) [] s)
       (\<lambda>kw. bind (call_callback (callback self) [] (fill_defaults (options self) kw))
         (\<lambda>r. returns PyNone))"

section \<open>Subcommand groups\<close>

text \<open>
  A \<^verbatim>\<open>SubCommandGroup\<close> is an \<^verbatim>\<open>Option\<close> (its name, description and input type are
  the option's) that holds child commands and groups. \<open>parent_group\<close> is the
  back-reference to the enclosing group, held as that group's option part. The hook slots
  and the check list, empty at construction, are left out.
\<close>

datatype SubCommandGroup =
  SubCommandGroup
    (as_option: Option)
    (subcommands: "subcommand list")
    (group_guild_ids: "int list option")
    (parent_group: "Option option")
and subcommand =
    Subcommand SlashCommand
  | Subgroup SubCommandGroup

text \<open>\<^verbatim>\<open>SubCommandGroup.__init__(name, description, guild_ids, parent_group)\<close>.\<close>

definition SubCommandGroup_init ::
  "(code_point \<Rightarrow> char_case) \<Rightarrow> (pytype \<Rightarrow> exn + SlashCommandOptionType) \<Rightarrow> pyval \<Rightarrow> pyval \<Rightarrow>
     int list option \<Rightarrow> Option option \<Rightarrow> exn + SubCommandGroup" where
  "SubCommandGroup_init case_of from_datatype nm desc gids parent =
     (case validate_chat_input_name case_of (as_name_arg nm) of
        Inl e \<Rightarrow> Inl e
      | Inr u \<Rightarrow>
          (case validate_chat_input_description desc of
             Inl e \<Rightarrow> Inl e
           | Inr u \<Rightarrow>
               (case Option_init from_datatype (EnumMember sub_command_group)
                       (case desc of PyStr d \<Rightarrow> Some d | _ \<Rightarrow> None)
                       (case nm of PyStr n \<Rightarrow> Some n | _ \<Rightarrow> None) True [] PyNone of
                  Inl e \<Rightarrow> Inl e
                | Inr opt \<Rightarrow> Inr (SubCommandGroup opt [] gids parent))))"

text \<open>
  \<^verbatim>\<open>SubCommandGroup.command_group(name, description)\<close>: the group after the call,
  together with the new child group or the exception raised.
\<close>

definition command_group ::
  "(code_point \<Rightarrow> char_case) \<Rightarrow> (pytype \<Rightarrow> exn + SlashCommandOptionType) \<Rightarrow> SubCommandGroup \<Rightarrow>
     pyval \<Rightarrow> pyval \<Rightarrow> SubCommandGroup \<times> (exn + SubCommandGroup)" where
  "command_group case_of from_datatype self nm desc =
     (if parent_group self \<noteq> None then
        (self, Inl (Exception ''Subcommands can only be nested once''))
      else
        (case SubCommandGroup_init case_of from_datatype nm desc None (Some (as_option self)) of
           Inl e \<Rightarrow> (self, Inl e)
         | Inr child \<Rightarrow>
             (SubCommandGroup (as_option self)
                (subcommands self @ [Subgroup child])
                (group_guild_ids self) (parent_group self),
              Inr child)))"

section \<open>Context-menu commands\<close>

datatype command_class = ContextMenuCommand_class | UserCommand_class | MessageCommand_class

record ContextMenuCommand = ApplicationCommand +
  command_class :: command_class

text \<open>
  The keyword arguments a command constructor reads, each absent (\<open>None\<close>) or given.
\<close>

record constructor_kwargs =
  kw_name :: "pyval option"
  kw_description :: "pyval option"
  kw_guild_ids :: "int list option"
  kw_checks :: "(InteractionContext \<Rightarrow> exn + bool) list option"

text \<open>\<^verbatim>\<open>ContextMenuCommand.validate_parameters()\<close>.\<close>

definition validate_parameters :: "ContextMenuCommand \<Rightarrow> exn + unit" where
  \<open>validate_parameters self =
     (case (if cog self \<noteq> None then
              (case parameters (callback self) of
                 [] \<Rightarrow> Inl (ClientException
                         (''Callback for '' @ name self @ '' command is missing "self" parameter.''))
               | p # rest \<Rightarrow> Inr rest)
            else Inr (parameters (callback self))) of
        Inl e \<Rightarrow> Inl e
      | Inr params1 \<Rightarrow>
          (case params1 of
             [] \<Rightarrow> Inl (ClientException
                     (''Callback for '' @ name self @ '' command is missing "ctx" parameter.''))
           | p # params2 \<Rightarrow>
               (case params2 of
                  [] \<Rightarrow>
                    (let cmd = (if command_class self = UserCommand_class
                                then ''user'' else ''message'')
                     in Inl (ClientException
                          (''Callback for '' @ name self @ '' command is missing "'' @ cmd
                             @ ''" parameter.'')))
                | p # params3 \<Rightarrow>
                    (case params3 of
                       [] \<Rightarrow> Inr ()
                     | p # params4 \<Rightarrow>
                         Inl (ClientException
                           (''Callback for '' @ name self
                              @ '' command has too many parameters.''))))))\<close>

text \<open>\<^verbatim>\<open>ContextMenuCommand.__init__(func, **kwargs)\<close>, for the class \<open>cls\<close> being built.\<close>

definition ContextMenuCommand_init ::
  "command_class \<Rightarrow> pyfunc \<Rightarrow> constructor_kwargs \<Rightarrow> exn + ContextMenuCommand" where
  "ContextMenuCommand_init cls func kwargs =
     (if \<not> is_coroutine func then Inl (TypeError ''Callback must be a coroutine.'')
      else
        (case (case kw_name kwargs of None \<Rightarrow> PyStr (func_name func) | Some v \<Rightarrow> v) of
           PyStr nm \<Rightarrow>
             (let self = \<lparr>name = nm,
                          description = [],
                          callback = func,
                          guild_ids = kw_guild_ids kwargs,
                          cog = None,
                          checks =
                            (case commands_checks func of
                               Some cs \<Rightarrow> rev cs
                             | None \<Rightarrow> (case kw_checks kwargs of None \<Rightarrow> [] | Some cs \<Rightarrow> cs)),
                          before_invoke_hook = None,
                          after_invoke_hook = None,
                          on_error = None,
                          command_class = cls\<rparr>
              in case validate_parameters self of
                   Inl e \<Rightarrow> Inl e
                 | Inr u \<Rightarrow> Inr self)
         | _ \<Rightarrow> Inl (TypeError ''Name of a command must be a string.'')))"

text \<open>
  \<^verbatim>\<open>ContextMenuCommand.to_dict()\<close>. The class attribute \<^verbatim>\<open>type\<close> is 2 on
  \<^verbatim>\<open>UserCommand\<close> and 3 on \<^verbatim>\<open>MessageCommand\<close>; the base class does not define it.
\<close>

definition ContextMenuCommand_to_dict :: "ContextMenuCommand \<Rightarrow> exn + (string \<times> pyval) list" where
  "ContextMenuCommand_to_dict self =
     (case (case command_class self of
              UserCommand_class \<Rightarrow> Inr 2
            | MessageCommand_class \<Rightarrow> Inr 3
            | ContextMenuCommand_class \<Rightarrow>
                Inl (AttributeError ''ContextMenuCommand object has no attribute type'')) of
        Inl e \<Rightarrow> Inl e
      | Inr t \<Rightarrow>
          Inr [(''name'', PyStr (name self)),
               (''description'', PyStr (ApplicationCommand.description self)),
               (''type'', PyInt t)])"

section \<open>Equality of slash commands\<close>

text \<open>
  \<^verbatim>\<open>SlashCommand.__eq__(other)\<close>; \<open>other\<close> is any object: a slash command, a
  context-menu command, a group, or a plain value.
\<close>

datatype pyobject =
    SlashCommand_object SlashCommand
  | ContextMenuCommand_object ContextMenuCommand
  | SubCommandGroup_object SubCommandGroup
  | Value_object pyval

definition SlashCommand_eq :: "SlashCommand \<Rightarrow> pyobject \<Rightarrow> bool" where
  "SlashCommand_eq self other =
     (case other of
        SlashCommand_object c \<Rightarrow>
          name c = name self
          \<and> ApplicationCommand.description c = ApplicationCommand.description self
      | _ \<Rightarrow> False)"

section \<open>Sample inputs\<close>

text \<open>
  Concrete collaborators and commands on which the theorems below are instantiated. The
  sample table maps the built-in types to their option types and anything else to the
  string type; the sample guild knows two roles, 42 and 43, and no member. The sample
  case table agrees with Python's character database on the code points below 256 and
  from U+01C4 to U+01CC, where U+01C5 is a titlecase letter.
\<close>

definition sample_case_of :: "code_point \<Rightarrow> char_case" where
  "sample_case_of n =
     (if (65 \<le> n \<and> n \<le> 90) \<or> (192 \<le> n \<and> n \<le> 214) \<or> (216 \<le> n \<and> n \<le> 222)
         \<or> n = 452 \<or> n = 455 \<or> n = 458 then Uppercase
      else if (97 \<le> n \<and> n \<le> 122) \<or> n = 170 \<or> n = 181 \<or> n = 186
         \<or> (223 \<le> n \<and> n \<le> 246) \<or> (248 \<le> n \<and> n \<le> 255)
         \<or> n = 454 \<or> n = 457 \<or> n = 460 then Lowercase
      else if n = 453 \<or> n = 456 \<or> n = 459 then Titlecase
      else Uncased)"

definition sample_from_datatype :: "pytype \<Rightarrow> exn + SlashCommandOptionType" where
  "sample_from_datatype t =
     (case t of
        TInt \<Rightarrow> Inr integer_type
      | TBool \<Rightarrow> Inr boolean_type
      | TFloat \<Rightarrow> Inr number_type
      | _ \<Rightarrow> Inr string_type)"

definition sample_env :: environment where
  "sample_env =
     \<lparr>guild_lookup =
        (\<lambda>attr i. if attr = ''role'' \<and> (i = 42 \<or> i = 43) then Inr (PyEntity ''role'' i)
                   else Inl (NotFound (''Unknown '' @ attr))),
      py_int =
        (\<lambda>v. case v of
                PyInt i \<Rightarrow> Inr i
              | PyStr s \<Rightarrow>
                  if s = ''42'' then Inr 42
                  else if s = ''43'' then Inr 43
                  else if s = ''7'' then Inr 7
                  else Inl (ValueError ''invalid literal for int()'')
              | _ \<Rightarrow> Inl (TypeError ''int() argument must be a string or a number''))\<rparr>"

definition permissive_bot :: Bot where
  "permissive_bot =
     \<lparr>bot_can_run = (\<lambda>c. Inr True), bot_before_invoke = None, bot_after_invoke = None\<rparr>"

definition quiet_callback :: pyfunc where
  "quiet_callback =
     \<lparr>func_name = ''greet'', is_coroutine = True,
      parameters = [(''ctx'', \<lparr>annotation = None, default_value = PyEmpty\<rparr>),
                    (''name'', \<lparr>annotation = None, default_value = PyEmpty\<rparr>)],
      commands_checks = None,
      run = (\<lambda>c args kw. Inr PyNone)\<rparr>"

definition name_option :: Option where
  "name_option =
     \<lparr>Option.name = Some ''name'', description = ''No description provided'',
      input_type = string_type, required = True, choices = [], default = PyNone\<rparr>"

definition who_option :: Option where
  "who_option =
     \<lparr>Option.name = Some ''who'', description = ''No description provided'',
      input_type = mentionable, required = True, choices = [], default = PyNone\<rparr>"

definition whom_option :: Option where
  "whom_option =
     \<lparr>Option.name = Some ''whom'', description = ''No description provided'',
      input_type = mentionable, required = True, choices = [], default = PyNone\<rparr>"

definition amount_option :: Option where
  "amount_option =
     \<lparr>Option.name = Some ''count'', description = ''No description provided'',
      input_type = integer_type, required = False, choices = [], default = PyInt 0\<rparr>"

definition first_twin_option :: Option where
  "first_twin_option =
     \<lparr>Option.name = Some ''x'', description = ''No description provided'',
      input_type = integer_type, required = False, choices = [], default = PyInt 1\<rparr>"

definition second_twin_option :: Option where
  "second_twin_option =
     \<lparr>Option.name = Some ''x'', description = ''No description provided'',
      input_type = integer_type, required = False, choices = [], default = PyInt 2\<rparr>"

definition greet_command :: SlashCommand where
  "greet_command =
     \<lparr>name = ''greet'', description = ''Say hello'', callback = quiet_callback,
      guild_ids = None, cog = None, checks = [], before_invoke_hook = None,
      after_invoke_hook = None, on_error = None, is_subcommand = False,
      options = [name_option]\<rparr>"

definition mention_command :: SlashCommand where
  "mention_command =
     \<lparr>name = ''mention'', description = ''Mention someone'', callback = quiet_callback,
      guild_ids = None, cog = None, checks = [], before_invoke_hook = None,
      after_invoke_hook = None, on_error = None, is_subcommand = False,
      options = [who_option]\<rparr>"

definition order_command :: SlashCommand where
  "order_command =
     \<lparr>name = ''order'', description = ''Place an order'', callback = quiet_callback,
      guild_ids = None, cog = None, checks = [], before_invoke_hook = None,
      after_invoke_hook = None, on_error = None, is_subcommand = False,
      options = [name_option, amount_option]\<rparr>"

definition twin_command :: SlashCommand where
  "twin_command =
     \<lparr>name = ''twin'', description = ''Two options of one name'', callback = quiet_callback,
      guild_ids = None, cog = None, checks = [], before_invoke_hook = None,
      after_invoke_hook = None, on_error = None, is_subcommand = False,
      options = [first_twin_option, second_twin_option]\<rparr>"

definition pair_command :: SlashCommand where
  "pair_command =
     \<lparr>name = ''pair'', description = ''Mention two'', callback = quiet_callback,
      guild_ids = None, cog = None, checks = [], before_invoke_hook = None,
      after_invoke_hook = None, on_error = None, is_subcommand = False,
      options = [who_option, whom_option]\<rparr>"

definition failing_hook :: local_hook where
  "failing_hook =
     \<lparr>hook_self = None, hook_run = (\<lambda>inst c. Inl (Exception ''cleanup failed''))\<rparr>"

definition failing_handler :: "string option \<Rightarrow> InteractionContext \<Rightarrow> exn \<Rightarrow> exn + pyval" where
  "failing_handler inst c e = Inl (Exception ''handler failed'')"

definition start_state :: "(string \<times> pyval) list \<Rightarrow> state" where
  "start_state payload =
     \<lparr>ctx = \<lparr>command = None, command_failed = False, data_options = payload\<rparr>, trace = []\<rparr>"

definition prepared_state :: "string \<Rightarrow> (string \<times> pyval) list \<Rightarrow> state" where
  "prepared_state nm payload =
     \<lparr>ctx = \<lparr>command = Some nm, command_failed = False, data_options = payload\<rparr>,
      trace = []\<rparr>"

definition report_function :: pyfunc where
  "report_function =
     \<lparr>func_name = ''report'', is_coroutine = True,
      parameters = [(''ctx'', \<lparr>annotation = None, default_value = PyEmpty\<rparr>),
                    (''user'', \<lparr>annotation = None, default_value = PyEmpty\<rparr>)],
      commands_checks = None,
      run = (\<lambda>c args kw. Inr PyNone)\<rparr>"

definition count_option :: Option where
  "count_option =
     \<lparr>Option.name = None, description = ''how many'', input_type = integer_type,
      required = True, choices = [], default = PyInt 0\<rparr>"

definition sample_store :: option_store where
  "sample_store r = count_option"

definition nested_group :: SubCommandGroup where
  "nested_group =
     SubCommandGroup
       \<lparr>Option.name = Some ''inner'', description = ''Inner group'',
        input_type = sub_command_group, required = True, choices = [], default = PyNone\<rparr>
       [] None
       (Some \<lparr>Option.name = Some ''outer'', description = ''Outer group'',
             input_type = sub_command_group, required = True, choices = [],
             default = PyNone\<rparr>)"

definition top_group :: SubCommandGroup where
  "top_group =
     SubCommandGroup
       \<lparr>Option.name = Some ''outer'', description = ''Outer group'',
        input_type = sub_command_group, required = True, choices = [], default = PyNone\<rparr>
       [] None None"

section \<open>Properties of the validation rules\<close>

lemma islower_scan_iff:
  "islower_scan case_of cased s \<longleftrightarrow>
     (\<forall>c\<in>set s. case_of c \<noteq> Uppercase \<and> case_of c \<noteq> Titlecase)
     \<and> (cased \<or> (\<exists>c\<in>set s. case_of c = Lowercase))"
  by (induction s arbitrary: cased) auto

lemma str_islower_iff:
  "str_islower case_of s \<longleftrightarrow>
     (\<forall>c\<in>set s. case_of c \<noteq> Uppercase \<and> case_of c \<noteq> Titlecase)
     \<and> (\<exists>c\<in>set s. case_of c = Lowercase)"
  by (simp add: str_islower_def islower_scan_iff)

text \<open>
  Claim C2, as amended. Whatever the character database says, \<^verbatim>\<open>validate_chat_input_name\<close>
  returns normally on a string exactly when it has 1 to 32 characters, no space, no
  uppercase and no titlecase character, and at least one lowercase character. So it
  fails for every name with an uppercase letter, a space, length 0 or length above 32,
  and it also fails for a name with a titlecase character and for a name without any
  lowercase character.
\<close>

theorem validate_chat_input_name_returns_iff:
  "validate_chat_input_name case_of (Str s) = Inr () \<longleftrightarrow>
     1 \<le> length s \<and> length s \<le> 32 \<and> 32 \<notin> set s
     \<and> (\<forall>c\<in>set s. case_of c \<noteq> Uppercase \<and> case_of c \<noteq> Titlecase)
     \<and> (\<exists>c\<in>set s. case_of c = Lowercase)"
  by (cases s) (auto simp: validate_chat_input_name_def str_islower_iff)

text \<open>The name \<open>greet\<close> satisfies the right-hand side, and is accepted.\<close>

theorem validate_chat_input_name_returns_iff_witness:
  "as_name_arg (PyStr ''greet'') = Str [103, 114, 101, 101, 116]
   \<and> validate_chat_input_name sample_case_of (Str [103, 114, 101, 101, 116]) = Inr ()"
  using validate_chat_input_name_returns_iff [of sample_case_of "[103, 114, 101, 101, 116]"]
  by (simp add: sample_case_of_def as_name_arg_def)

text \<open>
  Claim C2 as first stated fails twice. The name \<open>123\<close> (code points 49, 50, 51) has
  three characters, no space and no uppercase letter, yet it is rejected. So is the name
  made of the titlecase letter U+01C5 (code point 453) and the letter \<open>a\<close>, which has no
  space, no uppercase letter and a lowercase letter.
\<close>

theorem validate_chat_input_name_caseless_counterexample:
  "1 \<le> length [49, 50, 51 :: nat] \<and> length [49, 50, 51 :: nat] \<le> 32
   \<and> 32 \<notin> set [49, 50, 51 :: nat]
   \<and> sample_case_of 49 \<noteq> Uppercase \<and> sample_case_of 50 \<noteq> Uppercase
   \<and> sample_case_of 51 \<noteq> Uppercase
   \<and> validate_chat_input_name sample_case_of (Str [49, 50, 51])
       = Inl (ValidationError ''Name of a chat input command must be lowercase.'')
   \<and> 1 \<le> length [453, 97 :: nat] \<and> length [453, 97 :: nat] \<le> 32
   \<and> 32 \<notin> set [453, 97 :: nat]
   \<and> sample_case_of 453 \<noteq> Uppercase \<and> sample_case_of 97 = Lowercase
   \<and> validate_chat_input_name sample_case_of (Str [453, 97])
       = Inl (ValidationError ''Name of a chat input command must be lowercase.'')"
  by (simp add: validate_chat_input_name_def str_islower_def sample_case_of_def)

section \<open>Properties of the option builder\<close>









text \<open>
  What the builder does with an explicit \<^verbatim>\<open>Option\<close> annotation: the instance itself is
  updated in the store and appended. Its name is filled from the parameter only when it
  is unset, and its default becomes \<^verbatim>\<open>option.default or p_obj.default\<close>, with the empty
  sentinel turned into \<^verbatim>\<open>None\<close>.
\<close>

lemma finish_option_eq:
  "finish_option p_name d opt =
     opt\<lparr>default := (if py_or (default opt) d = PyEmpty then PyNone else py_or (default opt) d),
         Option.name := (case Option.name opt of None \<Rightarrow> Some p_name | Some n \<Rightarrow> Some n)\<rparr>"
  by (cases "Option.name opt") (simp_all add: finish_option_def Let_def)

lemma finish_option_truthy_default_kept:
  "truthy (default opt) \<Longrightarrow> default opt \<noteq> PyEmpty \<Longrightarrow>
     default (finish_option p_name d opt) = default opt"
  by (simp add: finish_option_eq py_or_def)

text \<open>
  One instance annotating two parameters is appended twice, and bears the name of the
  first.
\<close>

lemma parse_options_shared_instance:
  "parse_options sample_from_datatype False ''h''
     [(''ctx'', \<lparr>annotation = None, default_value = PyEmpty\<rparr>),
      (''a'', \<lparr>annotation = Some (Option_annotation 0), default_value = PyEmpty\<rparr>),
      (''b'', \<lparr>annotation = Some (Option_annotation 0), default_value = PyEmpty\<rparr>)]
     sample_store
   = (sample_store(0 := count_option\<lparr>Option.name := Some ''a'', default := PyNone\<rparr>),
      Inr [Annotation_object 0, Annotation_object 0])"
  by (simp add: parse_options_def parse_option_def finish_option_def py_or_def
                sample_store_def count_option_def)

text \<open>
  Claim C4 does not hold of the code. An explicit \<^verbatim>\<open>Option\<close> whose own default is set to 0
  loses it: with a declared parameter default 5 the option's default becomes 5, and with
  no declared parameter default it becomes \<^verbatim>\<open>None\<close>. The name, unset, is filled from the
  parameter.
\<close>

theorem parse_option_falsy_default_overwritten:
  "sample_store 0
     = \<lparr>Option.name = None, description = ''how many'', input_type = integer_type,
        required = True, choices = [], default = PyInt 0\<rparr>
   \<and> parse_option sample_from_datatype ''count''
       \<lparr>annotation = Some (Option_annotation 0), default_value = PyInt 5\<rparr> sample_store
     = (sample_store
          (0 := \<lparr>Option.name = Some ''count'', description = ''how many'',
                 input_type = integer_type, required = True, choices = [],
                 default = PyInt 5\<rparr>),
        Inr (Annotation_object 0))
   \<and> parse_option sample_from_datatype ''count''
       \<lparr>annotation = Some (Option_annotation 0), default_value = PyEmpty\<rparr> sample_store
     = (sample_store
          (0 := \<lparr>Option.name = Some ''count'', description = ''how many'',
                 input_type = integer_type, required = True, choices = [],
                 default = PyNone\<rparr>),
        Inr (Annotation_object 0))"
  by (simp add: parse_option_def finish_option_def py_or_def sample_store_def count_option_def)

section \<open>Properties of the command base\<close>

lemma call_after_hooks_count:
  "call_after_hooks self the_bot s = (s', r) \<Longrightarrow>
     count_list (trace s') After_hooks_entered = Suc (count_list (trace s) After_hooks_entered)
     \<and> ctx s' = ctx s"
  by (auto simp: call_after_hooks_def bind_def emit_def run_hook_def await_def returns_def
           split: option.splits sum.splits prod.splits)

lemma call_before_hooks_count:
  "call_before_hooks self the_bot s = (s', r) \<Longrightarrow>
     count_list (trace s') After_hooks_entered = count_list (trace s) After_hooks_entered"
  by (auto simp: call_before_hooks_def bind_def emit_def run_hook_def await_def returns_def
           split: option.splits sum.splits prod.splits)

lemma async_all_state: "async_all ps s = (s', r) \<Longrightarrow> s' = s"
  by (induction ps) (auto split: sum.splits if_splits)

lemma can_run_state: "can_run self the_bot s = (s', r) \<Longrightarrow> s' = s"
  by (auto simp: can_run_def bind_def await_def raise_def returns_def
           split: sum.splits if_splits prod.splits dest: async_all_state)

lemma prepare_count:
  "prepare self the_bot s = (s', r) \<Longrightarrow>
     count_list (trace s') After_hooks_entered = count_list (trace s) After_hooks_entered"
  by (auto simp: prepare_def bind_def raise_def
           split: sum.splits if_splits prod.splits
           dest!: can_run_state call_before_hooks_count)

text \<open>
  When \<^verbatim>\<open>_invoke\<close> raises an exception that is neither a command error nor a
  cancellation, \<^verbatim>\<open>invoke\<close> raises it wrapped if the after-hooks return, and raises
  the fault of the after-hooks if they raise.
\<close>

lemma invoke_cleanup_after_exception:
  assumes "prepare self the_bot s0 = (s1, Inr ())"
    and "private_invoke s1 = (s3, Inl e)"
    and "call_after_hooks self the_bot s3 = (s5, h)"
    and "\<not> is_ApplicationCommandError e" and "is_Exception e"
  shows "invoke self the_bot private_invoke s0
           = (s5, case h of
                    Inl e' \<Rightarrow> Inl e'
                  | Inr u \<Rightarrow> Inl (ApplicationCommandInvokeError e))"
  using assms
  by (auto simp: invoke_def bind_def hooked_wrapped_callback_def try_finally_def returns_def
           split: sum.splits)

text \<open>
  Claim C1 does not hold of the code. A command-local error handler that raises makes
  \<^verbatim>\<open>dispatch_error\<close> raise before the \<^verbatim>\<open>try\<close>/\<^verbatim>\<open>finally\<close> block is entered: the handler ran,
  the fault leaves wrapped as an invocation error, and no event was dispatched.
\<close>

theorem dispatch_error_local_handler_raises:
  "dispatch_error (greet_command\<lparr>on_error := Some failing_handler\<rparr>) (Exception ''boom'')
     (prepared_state ''greet'' [])
   = (\<lparr>ctx = \<lparr>command = Some ''greet'', command_failed = True, data_options = []\<rparr>,
       trace = [Error_handler Command_site]\<rparr>,
      Inl (ApplicationCommandInvokeError (Exception ''handler failed'')))"
  by (simp add: dispatch_error_def bind_def wrap_callback_def emit_def await_def
                greet_command_def failing_handler_def prepared_state_def)

text \<open>
  The part of claim C1 that the code does keep: when no local handler is registered, or
  the local handler returns or is cancelled, the event is dispatched last, with the
  context marked as failed and the error, whatever the cog's error hook does.
\<close>

lemma dispatch_error_dispatches_last:
  assumes "dispatch_error self error s = (s', r)"
    and "on_error self = None \<or>
         (\<exists>coro. on_error self = Some coro \<and>
            (\<forall>e. coro (map_option cog_name (cog self)) ((ctx s)\<lparr>command_failed := True\<rparr>) error
                   = Inl e \<longrightarrow> e = CancelledError))"
  shows "trace s' \<noteq> []
    \<and> last (trace s') =
        Dispatched ''application_command_error'' ((ctx s)\<lparr>command_failed := True\<rparr>) error"
  using assms
  by (auto simp: dispatch_error_def bind_def wrap_callback_def emit_def await_def returns_def
                 try_finally_def
           split: option.splits sum.splits prod.splits if_splits)

text \<open>
  Claim C7, as amended. Once \<^verbatim>\<open>prepare\<close> has succeeded and \<^verbatim>\<open>_invoke\<close> has run, with any
  outcome \<open>r\<close>, \<^verbatim>\<open>invoke\<close> ends in the state \<^verbatim>\<open>call_after_hooks\<close> leaves:
  \<^verbatim>\<open>call_after_hooks\<close> is entered exactly once more than \<^verbatim>\<open>_invoke\<close> itself caused, and
  not at all during \<^verbatim>\<open>prepare\<close>. If \<^verbatim>\<open>_invoke\<close> raised a cancellation and the after-hooks
  return, \<^verbatim>\<open>invoke\<close> returns normally, without a result; a fault raised by an after-hook
  is raised by \<^verbatim>\<open>invoke\<close>.
\<close>

theorem invoke_after_hooks_once:
  assumes "prepare self the_bot s0 = (s1, Inr ())"
    and "private_invoke s1 = (s2, r)"
    and "call_after_hooks self the_bot s2 = (s3, h)"
  shows "fst (invoke self the_bot private_invoke s0) = s3
    \<and> count_list (trace s1) After_hooks_entered = count_list (trace s0) After_hooks_entered
    \<and> count_list (trace s3) After_hooks_entered
        = Suc (count_list (trace s2) After_hooks_entered)
    \<and> (r = Inl CancelledError \<and> h = Inr () \<longrightarrow>
         invoke self the_bot private_invoke s0 = (s3, Inr ()))
    \<and> (\<forall>e. h = Inl e \<longrightarrow> invoke self the_bot private_invoke s0 = (s3, Inl e))"
  using assms prepare_count[OF assms(1)] call_after_hooks_count[OF assms(3)]
  by (auto simp: invoke_def bind_def hooked_wrapped_callback_def try_finally_def returns_def
           split: sum.splits)

text \<open>
  A command without hooks whose \<^verbatim>\<open>_invoke\<close> is cancelled: \<^verbatim>\<open>invoke\<close> returns, and
  \<^verbatim>\<open>call_after_hooks\<close> was entered once.
\<close>

theorem invoke_after_hooks_once_witness:
  "prepare greet_command permissive_bot (start_state []) = (prepared_state ''greet'' [], Inr ())
   \<and> (raise CancelledError :: pyval io) (prepared_state ''greet'' [])
       = (prepared_state ''greet'' [], Inl CancelledError)
   \<and> call_after_hooks greet_command permissive_bot (prepared_state ''greet'' [])
       = ((prepared_state ''greet'' [])\<lparr>trace := [After_hooks_entered]\<rparr>, Inr ())
   \<and> invoke greet_command permissive_bot (raise CancelledError) (start_state [])
       = ((prepared_state ''greet'' [])\<lparr>trace := [After_hooks_entered]\<rparr>, Inr ())
   \<and> count_list (trace ((prepared_state ''greet'' [])\<lparr>trace := [After_hooks_entered]\<rparr>))
         After_hooks_entered = 1
   \<and> invoke (greet_command\<lparr>after_invoke_hook := Some failing_hook\<rparr>) permissive_bot
         (returns PyNone) (start_state [])
       = ((prepared_state ''greet'' [])
            \<lparr>trace := [After_hooks_entered, After_hook Command_site]\<rparr>,
          Inl (Exception ''cleanup failed''))"
proof -
  have p: "prepare greet_command permissive_bot (start_state [])
             = (prepared_state ''greet'' [], Inr ())"
    by (simp add: prepare_def can_run_def call_before_hooks_def bind_def await_def returns_def
                  greet_command_def permissive_bot_def start_state_def prepared_state_def)
  have i: "(raise CancelledError :: pyval io) (prepared_state ''greet'' [])
             = (prepared_state ''greet'' [], Inl CancelledError)"
    by (simp add: raise_def)
  have c: "call_after_hooks greet_command permissive_bot (prepared_state ''greet'' [])
             = ((prepared_state ''greet'' [])\<lparr>trace := [After_hooks_entered]\<rparr>, Inr ())"
    by (simp add: call_after_hooks_def bind_def emit_def returns_def
                  greet_command_def permissive_bot_def prepared_state_def)
  have p2: "prepare (greet_command\<lparr>after_invoke_hook := Some failing_hook\<rparr>) permissive_bot
              (start_state [])
            = (prepared_state ''greet'' [], Inr ())"
    by (simp add: prepare_def can_run_def call_before_hooks_def bind_def await_def returns_def
                  greet_command_def permissive_bot_def start_state_def prepared_state_def)
  have i2: "(returns PyNone :: pyval io) (prepared_state ''greet'' [])
              = (prepared_state ''greet'' [], Inr PyNone)"
    by (simp add: returns_def)
  have c2: "call_after_hooks (greet_command\<lparr>after_invoke_hook := Some failing_hook\<rparr>)
              permissive_bot (prepared_state ''greet'' [])
            = ((prepared_state ''greet'' [])
                 \<lparr>trace := [After_hooks_entered, After_hook Command_site]\<rparr>,
               Inl (Exception ''cleanup failed''))"
    by (simp add: call_after_hooks_def bind_def emit_def returns_def run_hook_def await_def
                  call_local_hook_def hook_instance_def failing_hook_def
                  greet_command_def permissive_bot_def prepared_state_def)
  show ?thesis
    using p i c
      invoke_after_hooks_once [where private_invoke = "raise CancelledError", OF p i c]
      invoke_after_hooks_once [where private_invoke = "returns PyNone", OF p2 i2 c2]
    by (simp add: prepared_state_def)
qed

text \<open>
  Claim C7 as first stated fails when the cleanup itself fails: \<^verbatim>\<open>_invoke\<close> is cancelled,
  the command's after-hook raises, and \<^verbatim>\<open>invoke\<close> raises that fault instead of returning.
\<close>

theorem invoke_cancelled_cleanup_fails_counterexample:
  "invoke (greet_command\<lparr>after_invoke_hook := Some failing_hook\<rparr>) permissive_bot
     (raise CancelledError) (start_state [])
   = (\<lparr>ctx = \<lparr>command = Some ''greet'', command_failed = False, data_options = []\<rparr>,
       trace = [After_hooks_entered, After_hook Command_site]\<rparr>,
      Inl (Exception ''cleanup failed''))"
  by (simp add: invoke_def prepare_def can_run_def call_before_hooks_def bind_def await_def
                returns_def raise_def hooked_wrapped_callback_def try_finally_def
                call_after_hooks_def run_hook_def emit_def call_local_hook_def hook_instance_def
                greet_command_def permissive_bot_def start_state_def failing_hook_def)


section \<open>Properties of slash command invocation\<close>

lemma invoke_arg_ctx:
  "invoke_arg env opts arg kw s = (s', r) \<Longrightarrow> ctx s' = ctx s"
  by (auto simp: invoke_arg_def bind_def raise_def returns_def int_of_def get_or_fetch_def
                 emit_def except_NotFound_def Let_def
           split: option.splits sum.splits prod.splits if_splits exn.splits)

lemma invoke_arg_keys:
  "invoke_arg env opts arg kw s = (s', Inr kw') \<Longrightarrow>
     \<exists>a. kw' = AList.update (Some (fst arg)) a kw"
  by (auto simp: invoke_arg_def bind_def raise_def returns_def find_Some_iff
           split: option.splits sum.splits prod.splits)

lemma invoke_args_ctx:
  "invoke_args env opts args kw s = (s', r) \<Longrightarrow> ctx s' = ctx s"
proof (induction args arbitrary: kw s)
  case Nil
  then show ?case by (simp add: returns_def)
next
  case (Cons arg rest)
  then show ?case
    by (auto simp: bind_def split: prod.splits sum.splits dest: invoke_arg_ctx)
qed

lemma invoke_args_append:
  "invoke_args env opts (xs @ ys) kw s =
     (case invoke_args env opts xs kw s of
        (s1, Inl e) \<Rightarrow> (s1, Inl e)
      | (s1, Inr kw1) \<Rightarrow> invoke_args env opts ys kw1 s1)"
  by (induction xs arbitrary: kw s) (auto simp: returns_def bind_def split: prod.splits sum.splits)

text \<open>The first loop writes only the keys that the payload names.\<close>

lemma invoke_args_map_of:
  "invoke_args env opts args kw s = (s', Inr kw') \<Longrightarrow> k \<notin> Some ` fst ` set args \<Longrightarrow>
     map_of kw' k = map_of kw k"
proof (induction args arbitrary: kw s)
  case Nil
  then show ?case by (simp add: returns_def)
next
  case (Cons arg rest)
  from Cons.prems(1) obtain s1 kw1 where
    step: "invoke_arg env opts arg kw s = (s1, Inr kw1)"
    and rest: "invoke_args env opts rest kw1 s1 = (s', Inr kw')"
    by (auto simp: bind_def split: prod.splits sum.splits)
  from invoke_arg_keys[OF step] obtain a where "kw1 = AList.update (Some (fst arg)) a kw" ..
  moreover have "map_of kw' k = map_of kw1 k"
    using Cons.IH[OF rest] Cons.prems(2) by simp
  ultimately show ?case
    using Cons.prems(2) by (simp add: update_conv')
qed

lemma invoke_args_dom:
  "invoke_args env opts args kw s = (s', Inr kw') \<Longrightarrow>
     fst ` set kw' = fst ` set kw \<union> Some ` fst ` set args"
proof (induction args arbitrary: kw s)
  case Nil
  then show ?case by (simp add: returns_def)
next
  case (Cons arg rest)
  from Cons.prems(1) obtain s1 kw1 where
    step: "invoke_arg env opts arg kw s = (s1, Inr kw1)"
    and rest: "invoke_args env opts rest kw1 s1 = (s', Inr kw')"
    by (auto simp: bind_def split: prod.splits sum.splits)
  from invoke_arg_keys[OF step] obtain a where "kw1 = AList.update (Some (fst arg)) a kw" ..
  then show ?case
    using Cons.IH[OF rest] by (auto simp: dom_update)
qed

text \<open>
  The second loop keeps every key already present and gives every other option name the
  default of the first option that bears it.
\<close>

lemma fill_defaults_map_of:
  "map_of (fill_defaults opts kw) k =
     (case map_of kw k of
        Some v \<Rightarrow> Some v
      | None \<Rightarrow> map_option default (find (\<lambda>x. Option.name x = k) opts))"
proof (induction opts arbitrary: kw)
  case Nil
  then show ?case by (simp split: option.splits)
next
  case (Cons opt rest)
  show ?case
  proof (cases "Option.name opt \<in> fst ` set kw")
    case True
    then have "map_of kw (Option.name opt) \<noteq> None"
      by (simp add: map_of_eq_None_iff)
    with True show ?thesis
      by (auto simp: Cons.IH split: option.splits)
  next
    case False
    then have "map_of kw (Option.name opt) = None"
      by (simp add: map_of_eq_None_iff)
    with False show ?thesis
      by (auto simp: Cons.IH update_conv' split: option.splits)
  qed
qed

lemma fill_defaults_dom:
  "fst ` set (fill_defaults opts kw) = fst ` set kw \<union> Option.name ` set opts"
  by (induction opts arbitrary: kw) (auto simp: dom_update)

lemma find_distinct_name:
  "distinct (map Option.name opts) \<Longrightarrow> opt \<in> set opts \<Longrightarrow>
     find (\<lambda>x. Option.name x = Option.name opt) opts = Some opt"
  by (induction opts) auto

lemma supplied_value_kept:
  "map_of kw k = Some v \<Longrightarrow> map_of (fill_defaults opts kw) k = Some v"
  by (simp add: fill_defaults_map_of)

lemma absent_option_gets_default:
  assumes args: "invoke_args env opts payload [] s = (s1, Inr kw)"
    and dist: "distinct (map Option.name opts)"
    and mem: "o1 \<in> set opts"
    and absent: "Option.name o1 \<notin> Some ` fst ` set payload"
  shows "map_of (fill_defaults opts kw) (Option.name o1) = Some (default o1)"
proof -
  have "fst ` set kw = Some ` fst ` set payload"
    using invoke_args_dom[OF args] by simp
  with absent have "map_of kw (Option.name o1) = None"
    by (simp add: map_of_eq_None_iff)
  moreover have "find (\<lambda>x. Option.name x = Option.name o1) opts = Some o1"
    using dist mem by (rule find_distinct_name)
  ultimately show ?thesis
    by (simp add: fill_defaults_map_of)
qed

text \<open>
  \<^verbatim>\<open>_invoke\<close> after the first loop: the callback is called once, with the keyword
  arguments the second loop completes, and \<^verbatim>\<open>_invoke\<close> returns \<^verbatim>\<open>None\<close> or raises what the
  callback raises. A fault in the first loop leaves \<^verbatim>\<open>_invoke\<close> as it is.
\<close>

lemma private_invoke_after_args:
  assumes "invoke_args env (options self) (data_options (ctx s)) [] s = (s1, Inr kw)"
    and "None \<notin> Option.name ` set (options self)"
  shows "SlashCommand_private_invoke env self s =
     (s1\<lparr>trace := trace s1 @ [Callback_called (fill_defaults (options self) kw)]\<rparr>,
      map_sum id (\<lambda>r. PyNone)
        (run (callback self) (ctx s) [] (fill_defaults (options self) kw)))"
proof -
  have "fst ` set kw = Some ` fst ` set (data_options (ctx s))"
    using invoke_args_dom[OF assms(1)] by simp
  then have "None \<notin> fst ` set (fill_defaults (options self) kw)"
    using assms(2) by (auto simp: fill_defaults_dom)
  moreover have "ctx s1 = ctx s"
    using invoke_args_ctx[OF assms(1)] .
  ultimately show ?thesis
    using assms(1)
    by (auto simp: SlashCommand_private_invoke_def bind_def call_callback_def emit_def
                   await_def returns_def
             split: sum.splits)
qed

lemma private_invoke_args_raise:
  assumes "invoke_args env (options self) (data_options (ctx s)) [] s = (s1, Inl e)"
  shows "SlashCommand_private_invoke env self s = (s1, Inl e)"
  using assms by (simp add: SlashCommand_private_invoke_def bind_def)

lemma string_arg_passed_as_is:
  assumes "Option.name opt = Some ''name''" and "input_type opt = string_type"
  shows "invoke_args env [opt] [(''name'', PyStr ''Ada'')] [] s
           = (s, Inr [(Some ''name'', PyStr ''Ada'')])"
  using assms by (simp add: invoke_arg_def bind_def returns_def)

lemma private_invoke_ada:
  assumes "options self = [opt]" and "Option.name opt = Some ''name''"
    and "input_type opt = string_type"
    and "data_options (ctx s) = [(''name'', PyStr ''Ada'')]"
  shows "SlashCommand_private_invoke env self s =
        (s\<lparr>trace := trace s @ [Callback_called [(Some ''name'', PyStr ''Ada'')]]\<rparr>,
         map_sum id (\<lambda>r. PyNone)
           (run (callback self) (ctx s) [] [(Some ''name'', PyStr ''Ada'')]))"
proof -
  have args: "invoke_args env (options self) (data_options (ctx s)) [] s
               = (s, Inr [(Some ''name'', PyStr ''Ada'')])"
    unfolding assms(1) assms(4) using assms(2,3) by (rule string_arg_passed_as_is)
  have names: "None \<notin> Option.name ` set (options self)"
    unfolding assms(1) using assms(2) by simp
  have fill: "fill_defaults (options self) [(Some ''name'', PyStr ''Ada'')]
                = [(Some ''name'', PyStr ''Ada'')]"
    unfolding assms(1) using assms(2) by simp
  show ?thesis
    using private_invoke_after_args[OF args names] unfolding fill .
qed

lemma private_invoke_empty_payload:
  assumes "options self = [opt]" and "Option.name opt = Some ''name''"
    and "data_options (ctx s) = []"
  shows "SlashCommand_private_invoke env self s =
        (s\<lparr>trace := trace s @ [Callback_called [(Some ''name'', default opt)]]\<rparr>,
         map_sum id (\<lambda>r. PyNone)
           (run (callback self) (ctx s) [] [(Some ''name'', default opt)]))"
proof -
  have args: "invoke_args env (options self) (data_options (ctx s)) [] s = (s, Inr [])"
    unfolding assms(3) by (simp add: returns_def)
  have names: "None \<notin> Option.name ` set (options self)"
    unfolding assms(1) using assms(2) by simp
  have fill: "fill_defaults (options self) [] = [(Some ''name'', default opt)]"
    unfolding assms(1) using assms(2) by simp
  show ?thesis
    using private_invoke_after_args[OF args names] unfolding fill .
qed

text \<open>
  The mentionable branch when the member lookup reports not-found: two lookups for the
  same id, and the role lookup decides.
\<close>

lemma invoke_arg_mentionable:
  assumes "find (\<lambda>x. Option.name x = Some n) opts = Some op"
    and "input_type op = mentionable"
    and "py_int env v = Inr i"
    and "guild_lookup env ''member'' i = Inl (NotFound m)"
  shows "invoke_arg env opts (n, v) kw s =
     (s\<lparr>trace := trace s @ [Fetched ''member'' i, Fetched ''role'' i]\<rparr>,
      case guild_lookup env ''role'' i of
        Inl e \<Rightarrow> Inl e
      | Inr ent \<Rightarrow> Inr (AList.update (Some n) ent kw))"
proof -
  from assms(1) have "Option.name op = Some n" by (auto simp: find_Some_iff)
  with assms show ?thesis
    by (auto simp: invoke_arg_def bind_def returns_def int_of_def get_or_fetch_def emit_def
                   except_NotFound_def
             split: sum.splits)
qed

text \<open>
  \<^verbatim>\<open>_invoke\<close> after the first loop, whatever the option names: the call of the callback
  with the keyword arguments that the second loop completes.
\<close>

lemma private_invoke_calls_callback:
  assumes "invoke_args env (options self) (data_options (ctx s)) [] s = (s1, Inr kw)"
  shows "SlashCommand_private_invoke env self s =
     bind (call_callback (callback self) [] (fill_defaults (options self) kw))
       (\<lambda>r. returns PyNone) s1"
  using assms by (simp add: SlashCommand_private_invoke_def bind_def)

text \<open>
  A pair whose option is of a type that needs no lookup is bound as it is supplied, and
  so is a whole payload of such pairs, a later pair replacing an earlier one of the same
  name.
\<close>

lemma invoke_arg_plain:
  assumes "find (\<lambda>x. Option.name x = Some (fst a)) opts = Some op"
    and "input_type op \<notin> {user, channel, role, mentionable}"
  shows "invoke_arg env opts a kw s = (s, Inr (AList.update (Some (fst a)) (snd a) kw))"
proof -
  from assms(1) have "Option.name op = Some (fst a)" by (auto simp: find_Some_iff)
  with assms show ?thesis
    by (cases "input_type op") (simp_all add: invoke_arg_def bind_def returns_def)
qed

lemma invoke_args_plain:
  assumes "\<forall>a\<in>set args. \<exists>op. find (\<lambda>x. Option.name x = Some (fst a)) opts = Some op
             \<and> input_type op \<notin> {user, channel, role, mentionable}"
  shows "invoke_args env opts args kw s =
     (s, Inr (foldl (\<lambda>acc a. AList.update (Some (fst a)) (snd a) acc) kw args))"
  using assms
proof (induction args arbitrary: kw)
  case Nil
  then show ?case by (simp add: returns_def)
next
  case (Cons a rest)
  from Cons.prems obtain op where
    "find (\<lambda>x. Option.name x = Some (fst a)) opts = Some op"
    and "input_type op \<notin> {user, channel, role, mentionable}"
    by auto
  then have step: "invoke_arg env opts a kw s = (s, Inr (AList.update (Some (fst a)) (snd a) kw))"
    by (rule invoke_arg_plain)
  have rest: "\<forall>a\<in>set rest. \<exists>op. find (\<lambda>x. Option.name x = Some (fst a)) opts = Some op
             \<and> input_type op \<notin> {user, channel, role, mentionable}"
    using Cons.prems by simp
  show ?case
    by (simp add: bind_def step Cons.IH[OF rest])
qed

lemma invoke_args_keys:
  assumes "invoke_args env opts payload [] s = (s1, Inr kw)"
  shows "fst ` set kw = Some ` fst ` set payload"
  using invoke_args_dom[OF assms] by simp

text \<open>
  Claim C6, as amended. A slash command whose schema is one string option called \<open>name\<close>,
  invoked with the pair \<open>name\<close>/\<open>Ada\<close>, calls the callback with exactly that keyword
  argument; invoked with no pair, it calls the callback with \<open>name\<close> bound to the option's
  declared default. In general, once the supplied pairs are processed, every supplied
  name is a key, the callback is called with keyword arguments in which every key keeps
  its value, and, when no two options of the schema share a name, every option that the
  payload does not name has its declared default. A payload whose options need no lookup
  reaches the callback as it is supplied.
\<close>

theorem slash_invoke_kwargs:
  "(options self = [opt] \<and> Option.name opt = Some ''name'' \<and> input_type opt = string_type
      \<and> data_options (ctx s) = [(''name'', PyStr ''Ada'')] \<longrightarrow>
      SlashCommand_private_invoke env self s =
        (s\<lparr>trace := trace s @ [Callback_called [(Some ''name'', PyStr ''Ada'')]]\<rparr>,
         map_sum id (\<lambda>r. PyNone)
           (run (callback self) (ctx s) [] [(Some ''name'', PyStr ''Ada'')])))
   \<and> (options self = [opt] \<and> Option.name opt = Some ''name'' \<and> data_options (ctx s) = [] \<longrightarrow>
      SlashCommand_private_invoke env self s =
        (s\<lparr>trace := trace s @ [Callback_called [(Some ''name'', default opt)]]\<rparr>,
         map_sum id (\<lambda>r. PyNone)
           (run (callback self) (ctx s) [] [(Some ''name'', default opt)])))
   \<and> (invoke_args env (options self) (data_options (ctx s)) [] s = (s1, Inr kw) \<longrightarrow>
      SlashCommand_private_invoke env self s =
        bind (call_callback (callback self) [] (fill_defaults (options self) kw))
          (\<lambda>r. returns PyNone) s1
      \<and> fst ` set kw = Some ` fst ` set (data_options (ctx s))
      \<and> (\<forall>k v. map_of kw k = Some v \<longrightarrow>
            map_of (fill_defaults (options self) kw) k = Some v)
      \<and> (distinct (map Option.name (options self)) \<longrightarrow>
          (\<forall>o1\<in>set (options self).
             Option.name o1 \<notin> Some ` fst ` set (data_options (ctx s)) \<longrightarrow>
             map_of (fill_defaults (options self) kw) (Option.name o1) = Some (default o1))))
   \<and> ((\<forall>a\<in>set (data_options (ctx s)).
          \<exists>op. find (\<lambda>x. Option.name x = Some (fst a)) (options self) = Some op
             \<and> input_type op \<notin> {user, channel, role, mentionable}) \<longrightarrow>
      SlashCommand_private_invoke env self s =
        bind (call_callback (callback self) []
                (fill_defaults (options self)
                   (foldl (\<lambda>acc a. AList.update (Some (fst a)) (snd a) acc) []
                      (data_options (ctx s)))))
          (\<lambda>r. returns PyNone) s)"
proof (intro conjI impI ballI allI)
  assume "options self = [opt] \<and> Option.name opt = Some ''name'' \<and> input_type opt = string_type
      \<and> data_options (ctx s) = [(''name'', PyStr ''Ada'')]"
  then show "SlashCommand_private_invoke env self s =
        (s\<lparr>trace := trace s @ [Callback_called [(Some ''name'', PyStr ''Ada'')]]\<rparr>,
         map_sum id (\<lambda>r. PyNone)
           (run (callback self) (ctx s) [] [(Some ''name'', PyStr ''Ada'')]))"
    by (elim conjE) (rule private_invoke_ada)
next
  assume "options self = [opt] \<and> Option.name opt = Some ''name'' \<and> data_options (ctx s) = []"
  then show "SlashCommand_private_invoke env self s =
        (s\<lparr>trace := trace s @ [Callback_called [(Some ''name'', default opt)]]\<rparr>,
         map_sum id (\<lambda>r. PyNone)
           (run (callback self) (ctx s) [] [(Some ''name'', default opt)]))"
    by (elim conjE) (rule private_invoke_empty_payload)
next
  assume "invoke_args env (options self) (data_options (ctx s)) [] s = (s1, Inr kw)"
  then show "SlashCommand_private_invoke env self s =
        bind (call_callback (callback self) [] (fill_defaults (options self) kw))
          (\<lambda>r. returns PyNone) s1"
    by (rule private_invoke_calls_callback)
next
  assume "invoke_args env (options self) (data_options (ctx s)) [] s = (s1, Inr kw)"
  then show "fst ` set kw = Some ` fst ` set (data_options (ctx s))"
    by (rule invoke_args_keys)
next
  fix k v
  assume "map_of kw k = Some v"
  then show "map_of (fill_defaults (options self) kw) k = Some v"
    by (rule supplied_value_kept)
next
  fix o1
  assume "invoke_args env (options self) (data_options (ctx s)) [] s = (s1, Inr kw)"
    and "distinct (map Option.name (options self))"
    and "o1 \<in> set (options self)"
    and "Option.name o1 \<notin> Some ` fst ` set (data_options (ctx s))"
  then show "map_of (fill_defaults (options self) kw) (Option.name o1) = Some (default o1)"
    by (rule absent_option_gets_default)
next
  assume "\<forall>a\<in>set (data_options (ctx s)).
          \<exists>op. find (\<lambda>x. Option.name x = Some (fst a)) (options self) = Some op
             \<and> input_type op \<notin> {user, channel, role, mentionable}"
  then have "invoke_args env (options self) (data_options (ctx s)) [] s =
     (s, Inr (foldl (\<lambda>acc a. AList.update (Some (fst a)) (snd a) acc) []
                (data_options (ctx s))))"
    by (rule invoke_args_plain)
  then show "SlashCommand_private_invoke env self s =
        bind (call_callback (callback self) []
                (fill_defaults (options self)
                   (foldl (\<lambda>acc a. AList.update (Some (fst a)) (snd a) acc) []
                      (data_options (ctx s)))))
          (\<lambda>r. returns PyNone) s"
    by (rule private_invoke_calls_callback)
qed

text \<open>
  The sample command \<open>greet\<close> with the pair \<open>name\<close>/\<open>Ada\<close> and with an empty payload,
  and the sample command \<open>order\<close>, whose schema is a string option \<open>name\<close> and an integer
  option \<open>count\<close> of default 0: with the pair \<open>count\<close>/5 alone the callback receives it
  and the default of \<open>name\<close>; with both pairs it receives both.
\<close>

theorem slash_invoke_kwargs_witness:
  "SlashCommand_private_invoke sample_env greet_command
     (prepared_state ''greet'' [(''name'', PyStr ''Ada'')])
   = ((prepared_state ''greet'' [(''name'', PyStr ''Ada'')])
        \<lparr>trace := [Callback_called [(Some ''name'', PyStr ''Ada'')]]\<rparr>, Inr PyNone)
   \<and> SlashCommand_private_invoke sample_env greet_command (prepared_state ''greet'' [])
   = ((prepared_state ''greet'' [])\<lparr>trace := [Callback_called [(Some ''name'', PyNone)]]\<rparr>,
      Inr PyNone)
   \<and> SlashCommand_private_invoke sample_env order_command
       (prepared_state ''order'' [(''count'', PyInt 5)])
   = ((prepared_state ''order'' [(''count'', PyInt 5)])
        \<lparr>trace := [Callback_called [(Some ''count'', PyInt 5), (Some ''name'', PyNone)]]\<rparr>,
      Inr PyNone)
   \<and> map_of (fill_defaults (options order_command) [(Some ''count'', PyInt 5)]) (Some ''name'')
       = Some PyNone
   \<and> SlashCommand_private_invoke sample_env order_command
       (prepared_state ''order'' [(''name'', PyStr ''Ada''), (''count'', PyInt 5)])
   = ((prepared_state ''order'' [(''name'', PyStr ''Ada''), (''count'', PyInt 5)])
        \<lparr>trace := [Callback_called [(Some ''name'', PyStr ''Ada''), (Some ''count'', PyInt 5)]]\<rparr>,
      Inr PyNone)"
proof -
  have opts: "options greet_command = [name_option]"
    and nm: "Option.name name_option = Some ''name''"
    and ty: "input_type name_option = string_type"
    and dflt: "default name_option = PyNone"
    by (simp_all add: greet_command_def name_option_def)
  have d1: "data_options (ctx (prepared_state ''greet'' [(''name'', PyStr ''Ada'')]))
              = [(''name'', PyStr ''Ada'')]"
    and d2: "data_options (ctx (prepared_state ''greet'' [])) = []"
    by (simp_all add: prepared_state_def)
  have run: "run (callback greet_command) c args kw = Inr PyNone" for c args kw
    by (simp add: greet_command_def quiet_callback_def)
  have a: "SlashCommand_private_invoke sample_env greet_command
             (prepared_state ''greet'' [(''name'', PyStr ''Ada'')])
           = ((prepared_state ''greet'' [(''name'', PyStr ''Ada'')])
                \<lparr>trace := [Callback_called [(Some ''name'', PyStr ''Ada'')]]\<rparr>, Inr PyNone)"
    using slash_invoke_kwargs
            [where self = greet_command and opt = name_option and env = sample_env
               and s = "prepared_state ''greet'' [(''name'', PyStr ''Ada'')]",
             THEN conjunct1, rule_format, OF conjI [OF opts conjI [OF nm conjI [OF ty d1]]]]
    by (simp add: run prepared_state_def)
  have b: "SlashCommand_private_invoke sample_env greet_command (prepared_state ''greet'' [])
           = ((prepared_state ''greet'' [])
                \<lparr>trace := [Callback_called [(Some ''name'', PyNone)]]\<rparr>, Inr PyNone)"
    using slash_invoke_kwargs
            [where self = greet_command and opt = name_option and env = sample_env
               and s = "prepared_state ''greet'' []",
             THEN conjunct2, THEN conjunct1, rule_format, OF conjI [OF opts conjI [OF nm d2]]]
    by (simp add: run dflt prepared_state_def)
  \<comment> \<open>the command \<open>order\<close>, supplied with the count only\<close>
  define s5 where "s5 = prepared_state ''order'' [(''count'', PyInt 5)]"
  have oopts: "options order_command = [name_option, amount_option]"
    by (simp add: order_command_def)
  have orun: "run (callback order_command) c args kw = Inr PyNone" for c args kw
    by (simp add: order_command_def quiet_callback_def)
  have args5: "invoke_args sample_env (options order_command) (data_options (ctx s5)) [] s5
                 = (s5, Inr [(Some ''count'', PyInt 5)])"
    by (simp add: oopts s5_def prepared_state_def invoke_arg_def bind_def returns_def
                  name_option_def amount_option_def)
  note general =
    slash_invoke_kwargs
      [where self = order_command and env = sample_env and s = s5,
       THEN conjunct2, THEN conjunct2, THEN conjunct1, rule_format, OF args5]
  have c: "SlashCommand_private_invoke sample_env order_command s5
           = (s5\<lparr>trace := [Callback_called [(Some ''count'', PyInt 5), (Some ''name'', PyNone)]]\<rparr>,
              Inr PyNone)"
    using general [THEN conjunct1]
    by (simp add: oopts orun bind_def call_callback_def emit_def await_def returns_def
                  name_option_def amount_option_def s5_def prepared_state_def)
  have dist: "distinct (map Option.name (options order_command))"
    and mem: "name_option \<in> set (options order_command)"
    and absent: "Option.name name_option \<notin> Some ` fst ` set (data_options (ctx s5))"
    by (simp_all add: oopts name_option_def amount_option_def s5_def prepared_state_def)
  have d: "map_of (fill_defaults (options order_command) [(Some ''count'', PyInt 5)])
             (Some ''name'') = Some PyNone"
    using general [THEN conjunct2, THEN conjunct2, THEN conjunct2, rule_format,
                   OF dist mem absent]
    by (simp add: nm dflt)
  \<comment> \<open>the command \<open>order\<close>, supplied with both\<close>
  define s6 where "s6 = prepared_state ''order'' [(''name'', PyStr ''Ada''), (''count'', PyInt 5)]"
  have plain: "\<forall>a\<in>set (data_options (ctx s6)).
          \<exists>op. find (\<lambda>x. Option.name x = Some (fst a)) (options order_command) = Some op
             \<and> input_type op \<notin> {user, channel, role, mentionable}"
    by (simp add: oopts s6_def prepared_state_def name_option_def amount_option_def)
  have e: "SlashCommand_private_invoke sample_env order_command s6
           = (s6\<lparr>trace := [Callback_called
                               [(Some ''name'', PyStr ''Ada''), (Some ''count'', PyInt 5)]]\<rparr>,
              Inr PyNone)"
    using slash_invoke_kwargs
            [where self = order_command and env = sample_env and s = s6,
             THEN conjunct2, THEN conjunct2, THEN conjunct2, THEN mp, OF plain]
    by (simp add: oopts orun bind_def call_callback_def emit_def await_def returns_def
                  name_option_def amount_option_def s6_def prepared_state_def)
  from a b c d e show ?thesis
    unfolding s5_def s6_def by (intro conjI)
qed

text \<open>
  Claim C6 as first stated fails on a schema with two options of one name: with an empty
  payload the callback receives the default of the first, and the second option, absent
  from the payload, is not given its declared default.
\<close>

theorem slash_invoke_twin_options_counterexample:
  "options twin_command = [first_twin_option, second_twin_option]
   \<and> Option.name second_twin_option = Some ''x''
   \<and> default second_twin_option = PyInt 2
   \<and> SlashCommand_private_invoke sample_env twin_command (prepared_state ''twin'' [])
     = (\<lparr>ctx = \<lparr>command = Some ''twin'', command_failed = False, data_options = []\<rparr>,
         trace = [Callback_called [(Some ''x'', PyInt 1)]]\<rparr>,
        Inr PyNone)"
  by (simp add: SlashCommand_private_invoke_def bind_def call_callback_def emit_def await_def
                returns_def twin_command_def first_twin_option_def second_twin_option_def
                quiet_callback_def prepared_state_def)

text \<open>
  Claim C5, as amended. The supplied pairs before the mentionable one having been
  processed, a member lookup that reports not-found is followed by a role lookup for the
  same id, and the role lookup's outcome is the outcome of the step: the role it yields
  is bound to the option's name, the fault it raises is raised. If it yields a role, the
  remaining pairs resolve without fault and none of them names the option again, then
  \<^verbatim>\<open>_invoke\<close> calls the callback with keyword arguments that bind the option's name to
  the role. If it reports not-found too, that fault escapes \<^verbatim>\<open>_invoke\<close>; \<^verbatim>\<open>invoke\<close>, its
  preparation having succeeded, then raises an invocation error wrapping the fault when
  the after-hooks return normally, and the fault of the after-hooks when they raise.
\<close>

theorem mentionable_falls_back_to_role:
  assumes payload: "data_options (ctx s1) = pre @ (n, v) # post"
    and pre: "invoke_args env (options self) pre [] s1 = (s2, Inr kw1)"
    and found: "find (\<lambda>x. Option.name x = Some n) (options self) = Some op"
    and ment: "input_type op = mentionable"
    and ident: "py_int env v = Inr i"
    and member: "guild_lookup env ''member'' i = Inl (NotFound m)"
    and s3: "s3 = s2\<lparr>trace := trace s2 @ [Fetched ''member'' i, Fetched ''role'' i]\<rparr>"
  shows "invoke_arg env (options self) (n, v) kw1 s2 =
           (s3, case guild_lookup env ''role'' i of
                  Inl e \<Rightarrow> Inl e
                | Inr ent \<Rightarrow> Inr (AList.update (Some n) ent kw1))
    \<and> (\<forall>ent s4 kw2.
          guild_lookup env ''role'' i = Inr ent
          \<and> invoke_args env (options self) post (AList.update (Some n) ent kw1) s3 = (s4, Inr kw2)
          \<and> n \<notin> fst ` set post \<longrightarrow>
          map_of (fill_defaults (options self) kw2) (Some n) = Some ent
          \<and> SlashCommand_private_invoke env self s1 =
              bind (call_callback (callback self) [] (fill_defaults (options self) kw2))
                (\<lambda>r. returns PyNone) s4)
    \<and> (\<forall>m2. guild_lookup env ''role'' i = Inl (NotFound m2) \<longrightarrow>
          SlashCommand_private_invoke env self s1 = (s3, Inl (NotFound m2))
          \<and> (\<forall>the_bot s0 s5 h.
                prepare self the_bot s0 = (s1, Inr ())
                \<and> call_after_hooks self the_bot s3 = (s5, h) \<longrightarrow>
                invoke self the_bot (SlashCommand_private_invoke env self) s0
                  = (s5, case h of
                           Inl e \<Rightarrow> Inl e
                         | Inr u \<Rightarrow> Inl (ApplicationCommandInvokeError (NotFound m2)))))"
proof (intro conjI allI impI)
  show step: "invoke_arg env (options self) (n, v) kw1 s2 =
           (s3, case guild_lookup env ''role'' i of
                  Inl e \<Rightarrow> Inl e
                | Inr ent \<Rightarrow> Inr (AList.update (Some n) ent kw1))"
    unfolding s3 using found ment ident member by (rule invoke_arg_mentionable)
  have whole: "invoke_args env (options self) (data_options (ctx s1)) [] s1 =
      bind (invoke_arg env (options self) (n, v) kw1)
        (\<lambda>kw. invoke_args env (options self) post kw) s2"
    unfolding payload by (simp add: invoke_args_append pre)
  {
    fix ent s4 kw2
    assume a: "guild_lookup env ''role'' i = Inr ent
          \<and> invoke_args env (options self) post (AList.update (Some n) ent kw1) s3 = (s4, Inr kw2)
          \<and> n \<notin> fst ` set post"
    have args: "invoke_args env (options self) (data_options (ctx s1)) [] s1 = (s4, Inr kw2)"
      unfolding whole using a step by (simp add: bind_def)
    have rest: "invoke_args env (options self) post (AList.update (Some n) ent kw1) s3
                  = (s4, Inr kw2)"
      using a by simp
    have "Some n \<notin> Some ` fst ` set post" using a by auto
    with rest have "map_of kw2 (Some n) = map_of (AList.update (Some n) ent kw1) (Some n)"
      by (rule invoke_args_map_of)
    then have "map_of kw2 (Some n) = Some ent"
      by (simp add: update_conv')
    then show "map_of (fill_defaults (options self) kw2) (Some n) = Some ent"
      by (rule supplied_value_kept)
    show "SlashCommand_private_invoke env self s1 =
              bind (call_callback (callback self) [] (fill_defaults (options self) kw2))
                (\<lambda>r. returns PyNone) s4"
      using args by (rule private_invoke_calls_callback)
  }
  {
    fix m2
    assume a: "guild_lookup env ''role'' i = Inl (NotFound m2)"
    have args: "invoke_args env (options self) (data_options (ctx s1)) [] s1
                  = (s3, Inl (NotFound m2))"
      unfolding whole using a step by (simp add: bind_def)
    then show escapes: "SlashCommand_private_invoke env self s1 = (s3, Inl (NotFound m2))"
      by (rule private_invoke_args_raise)
    fix the_bot s0 s5 h
    assume b: "prepare self the_bot s0 = (s1, Inr ())
                \<and> call_after_hooks self the_bot s3 = (s5, h)"
    have prep: "prepare self the_bot s0 = (s1, Inr ())"
      and cleanup: "call_after_hooks self the_bot s3 = (s5, h)"
      using b by simp_all
    show "invoke self the_bot (SlashCommand_private_invoke env self) s0
                  = (s5, case h of
                           Inl e \<Rightarrow> Inl e
                         | Inr u \<Rightarrow> Inl (ApplicationCommandInvokeError (NotFound m2)))"
      using prep escapes cleanup by (rule invoke_cleanup_after_exception) simp_all
  }
qed

text \<open>
  The sample guild has the roles 42 and 43 and no member. The sample command \<open>pair\<close>, with
  the mentionable options \<open>who\<close> and \<open>whom\<close>, supplied with the ids 42 and 43: the callback
  receives both roles. The sample command \<open>mention\<close> supplied with id 7, neither a member
  nor a role: \<^verbatim>\<open>invoke\<close> raises the invocation error that wraps the role lookup's fault,
  and the fault of the after-hook when the command has one that raises.
\<close>

theorem mentionable_falls_back_to_role_witness:
  "SlashCommand_private_invoke sample_env pair_command
     (prepared_state ''pair'' [(''who'', PyStr ''42''), (''whom'', PyStr ''43'')])
   = (\<lparr>ctx = \<lparr>command = Some ''pair'', command_failed = False,
              data_options = [(''who'', PyStr ''42''), (''whom'', PyStr ''43'')]\<rparr>,
       trace = [Fetched ''member'' 42, Fetched ''role'' 42,
                Fetched ''member'' 43, Fetched ''role'' 43,
                Callback_called [(Some ''who'', PyEntity ''role'' 42),
                                 (Some ''whom'', PyEntity ''role'' 43)]]\<rparr>,
      Inr PyNone)
   \<and> invoke mention_command permissive_bot
       (SlashCommand_private_invoke sample_env mention_command)
       (start_state [(''who'', PyStr ''7'')])
   = (\<lparr>ctx = \<lparr>command = Some ''mention'', command_failed = False,
              data_options = [(''who'', PyStr ''7'')]\<rparr>,
       trace = [Fetched ''member'' 7, Fetched ''role'' 7, After_hooks_entered]\<rparr>,
      Inl (ApplicationCommandInvokeError (NotFound ''Unknown role'')))
   \<and> invoke (mention_command\<lparr>after_invoke_hook := Some failing_hook\<rparr>) permissive_bot
       (SlashCommand_private_invoke sample_env
          (mention_command\<lparr>after_invoke_hook := Some failing_hook\<rparr>))
       (start_state [(''who'', PyStr ''7'')])
   = (\<lparr>ctx = \<lparr>command = Some ''mention'', command_failed = False,
              data_options = [(''who'', PyStr ''7'')]\<rparr>,
       trace = [Fetched ''member'' 7, Fetched ''role'' 7, After_hooks_entered,
                After_hook Command_site]\<rparr>,
      Inl (Exception ''cleanup failed''))"
proof -
  have ident: "py_int sample_env (PyStr ''42'') = Inr 42"
              "py_int sample_env (PyStr ''7'') = Inr 7"
    and member: "guild_lookup sample_env ''member'' i = Inl (NotFound ''Unknown member'')"
    and role42: "guild_lookup sample_env ''role'' 42 = Inr (PyEntity ''role'' 42)"
    and role7: "guild_lookup sample_env ''role'' 7 = Inl (NotFound ''Unknown role'')"
    for i
    by (simp_all add: sample_env_def)
  have ment: "input_type who_option = mentionable"
    by (simp add: who_option_def)
  \<comment> \<open>the ids 42 and 43: two roles\<close>
  define sp where "sp = prepared_state ''pair'' [(''who'', PyStr ''42''), (''whom'', PyStr ''43'')]"
  define sq where "sq = sp\<lparr>trace := trace sp @ [Fetched ''member'' 42, Fetched ''role'' 42]\<rparr>"
  define sr where "sr = sp\<lparr>trace := [Fetched ''member'' 42, Fetched ''role'' 42,
                                        Fetched ''member'' 43, Fetched ''role'' 43]\<rparr>"
  have popts: "options pair_command = [who_option, whom_option]"
    by (simp add: pair_command_def)
  have prun: "run (callback pair_command) c args kw = Inr PyNone" for c args kw
    by (simp add: pair_command_def quiet_callback_def)
  have ppayload: "data_options (ctx sp) = [] @ (''who'', PyStr ''42'') # [(''whom'', PyStr ''43'')]"
    by (simp add: sp_def prepared_state_def)
  have ppre: "invoke_args sample_env (options pair_command) [] [] sp = (sp, Inr [])"
    by (simp add: returns_def)
  have pfound: "find (\<lambda>x. Option.name x = Some ''who'') (options pair_command) = Some who_option"
    by (simp add: popts who_option_def)
  have prest:
    "invoke_args sample_env (options pair_command) [(''whom'', PyStr ''43'')]
       (AList.update (Some ''who'') (PyEntity ''role'' 42) []) sq
     = (sr, Inr [(Some ''who'', PyEntity ''role'' 42), (Some ''whom'', PyEntity ''role'' 43)])"
    by (simp add: popts invoke_arg_def int_of_def get_or_fetch_def except_NotFound_def
                  bind_def emit_def await_def returns_def raise_def
                  who_option_def whom_option_def sample_env_def
                  sq_def sr_def sp_def prepared_state_def)
  have pabsent: "''who'' \<notin> fst ` set [(''whom'', PyStr ''43'')]"
    by simp
  have a: "SlashCommand_private_invoke sample_env pair_command sp
           = (sr\<lparr>trace := trace sr @ [Callback_called [(Some ''who'', PyEntity ''role'' 42),
                                                       (Some ''whom'', PyEntity ''role'' 43)]]\<rparr>,
              Inr PyNone)"
    using mentionable_falls_back_to_role
            [OF ppayload ppre pfound ment ident(1) member sq_def,
             THEN conjunct2, THEN conjunct1, rule_format,
             OF conjI [OF role42 conjI [OF prest pabsent]],
             THEN conjunct2]
    by (simp add: popts prun bind_def call_callback_def emit_def await_def returns_def
                  who_option_def whom_option_def sr_def sp_def prepared_state_def)
  \<comment> \<open>id 7: no member, no role\<close>
  define s7 where "s7 = prepared_state ''mention'' [(''who'', PyStr ''7'')]"
  define t7 where "t7 = s7\<lparr>trace := trace s7 @ [Fetched ''member'' 7, Fetched ''role'' 7]\<rparr>"
  define failing where "failing = mention_command\<lparr>after_invoke_hook := Some failing_hook\<rparr>"
  have payload7: "data_options (ctx s7) = [] @ (''who'', PyStr ''7'') # []"
    by (simp add: s7_def prepared_state_def)
  have pre7: "invoke_args sample_env opts [] [] s7 = (s7, Inr [])" for opts
    by (simp add: returns_def)
  have found7: "find (\<lambda>x. Option.name x = Some ''who'') (options mention_command)
                  = Some who_option"
               "find (\<lambda>x. Option.name x = Some ''who'') (options failing) = Some who_option"
    by (simp_all add: failing_def mention_command_def who_option_def)
  have prep7: "prepare mention_command permissive_bot (start_state [(''who'', PyStr ''7'')])
                 = (s7, Inr ())"
              "prepare failing permissive_bot (start_state [(''who'', PyStr ''7'')])
                 = (s7, Inr ())"
    by (simp_all add: prepare_def can_run_def call_before_hooks_def bind_def await_def
                      returns_def failing_def mention_command_def permissive_bot_def
                      start_state_def prepared_state_def s7_def)
  have cleanup7:
    "call_after_hooks mention_command permissive_bot t7
     = (s7\<lparr>trace := [Fetched ''member'' 7, Fetched ''role'' 7, After_hooks_entered]\<rparr>,
        Inr ())"
    by (simp add: call_after_hooks_def bind_def emit_def returns_def
                  mention_command_def permissive_bot_def t7_def s7_def prepared_state_def)
  have failing7:
    "call_after_hooks failing permissive_bot t7
     = (s7\<lparr>trace := [Fetched ''member'' 7, Fetched ''role'' 7, After_hooks_entered,
                       After_hook Command_site]\<rparr>,
        Inl (Exception ''cleanup failed''))"
    by (simp add: call_after_hooks_def run_hook_def call_local_hook_def hook_instance_def
                  bind_def emit_def await_def returns_def raise_def
                  failing_def failing_hook_def mention_command_def permissive_bot_def
                  t7_def s7_def prepared_state_def)
  have b: "invoke mention_command permissive_bot
             (SlashCommand_private_invoke sample_env mention_command)
             (start_state [(''who'', PyStr ''7'')])
           = (s7\<lparr>trace := [Fetched ''member'' 7, Fetched ''role'' 7, After_hooks_entered]\<rparr>,
              Inl (ApplicationCommandInvokeError (NotFound ''Unknown role'')))"
    using mentionable_falls_back_to_role
            [OF payload7 pre7 found7(1) ment ident(2) member t7_def,
             THEN conjunct2, THEN conjunct2, rule_format, OF role7,
             THEN conjunct2, rule_format, OF conjI [OF prep7(1) cleanup7]]
    by simp
  have c: "invoke failing permissive_bot (SlashCommand_private_invoke sample_env failing)
             (start_state [(''who'', PyStr ''7'')])
           = (s7\<lparr>trace := [Fetched ''member'' 7, Fetched ''role'' 7, After_hooks_entered,
                             After_hook Command_site]\<rparr>,
              Inl (Exception ''cleanup failed''))"
    using mentionable_falls_back_to_role
            [OF payload7 pre7 found7(2) ment ident(2) member t7_def,
             THEN conjunct2, THEN conjunct2, rule_format, OF role7,
             THEN conjunct2, rule_format, OF conjI [OF prep7(2) failing7]]
    by simp
  from a b c show ?thesis
    by (simp add: sr_def sp_def s7_def failing_def prepared_state_def)
qed

text \<open>
  Claim C5 as first stated fails in three ways. For id 7 and a command whose after-hook
  raises, \<^verbatim>\<open>invoke\<close> raises the hook's fault, not an invocation error. For the command
  \<open>pair\<close> supplied with the ids 42 and 7, the role found for 42 is never passed to the
  callback: the lookups for 7 fail and the callback is not called. For the command
  \<open>mention\<close> supplied with two pairs for \<open>who\<close>, of ids 42 and 43, the callback receives
  role 43 only, not the role found for 42.
\<close>

theorem mentionable_not_found_cleanup_fails_counterexample:
  "invoke (mention_command\<lparr>after_invoke_hook := Some failing_hook\<rparr>) permissive_bot
     (SlashCommand_private_invoke sample_env
        (mention_command\<lparr>after_invoke_hook := Some failing_hook\<rparr>))
     (start_state [(''who'', PyStr ''7'')])
   = (\<lparr>ctx = \<lparr>command = Some ''mention'', command_failed = False,
              data_options = [(''who'', PyStr ''7'')]\<rparr>,
       trace = [Fetched ''member'' 7, Fetched ''role'' 7, After_hooks_entered,
                After_hook Command_site]\<rparr>,
      Inl (Exception ''cleanup failed''))
   \<and> SlashCommand_private_invoke sample_env pair_command
       (prepared_state ''pair'' [(''who'', PyStr ''42''), (''whom'', PyStr ''7'')])
   = (\<lparr>ctx = \<lparr>command = Some ''pair'', command_failed = False,
              data_options = [(''who'', PyStr ''42''), (''whom'', PyStr ''7'')]\<rparr>,
       trace = [Fetched ''member'' 42, Fetched ''role'' 42,
                Fetched ''member'' 7, Fetched ''role'' 7]\<rparr>,
      Inl (NotFound ''Unknown role''))
   \<and> SlashCommand_private_invoke sample_env mention_command
       (prepared_state ''mention'' [(''who'', PyStr ''42''), (''who'', PyStr ''43'')])
   = (\<lparr>ctx = \<lparr>command = Some ''mention'', command_failed = False,
              data_options = [(''who'', PyStr ''42''), (''who'', PyStr ''43'')]\<rparr>,
       trace = [Fetched ''member'' 42, Fetched ''role'' 42,
                Fetched ''member'' 43, Fetched ''role'' 43,
                Callback_called [(Some ''who'', PyEntity ''role'' 43)]]\<rparr>,
      Inr PyNone)"
proof (intro conjI)
  show "invoke (mention_command\<lparr>after_invoke_hook := Some failing_hook\<rparr>) permissive_bot
     (SlashCommand_private_invoke sample_env
        (mention_command\<lparr>after_invoke_hook := Some failing_hook\<rparr>))
     (start_state [(''who'', PyStr ''7'')])
   = (\<lparr>ctx = \<lparr>command = Some ''mention'', command_failed = False,
              data_options = [(''who'', PyStr ''7'')]\<rparr>,
       trace = [Fetched ''member'' 7, Fetched ''role'' 7, After_hooks_entered,
                After_hook Command_site]\<rparr>,
      Inl (Exception ''cleanup failed''))"
    by (simp add: invoke_def prepare_def can_run_def call_before_hooks_def bind_def await_def
                  returns_def hooked_wrapped_callback_def try_finally_def
                  call_after_hooks_def run_hook_def emit_def call_local_hook_def
                  hook_instance_def
                  SlashCommand_private_invoke_def invoke_arg_def int_of_def get_or_fetch_def
                  except_NotFound_def
                  mention_command_def who_option_def sample_env_def permissive_bot_def
                  start_state_def failing_hook_def)
  show "SlashCommand_private_invoke sample_env pair_command
       (prepared_state ''pair'' [(''who'', PyStr ''42''), (''whom'', PyStr ''7'')])
   = (\<lparr>ctx = \<lparr>command = Some ''pair'', command_failed = False,
              data_options = [(''who'', PyStr ''42''), (''whom'', PyStr ''7'')]\<rparr>,
       trace = [Fetched ''member'' 42, Fetched ''role'' 42,
                Fetched ''member'' 7, Fetched ''role'' 7]\<rparr>,
      Inl (NotFound ''Unknown role''))"
    by (simp add: SlashCommand_private_invoke_def invoke_arg_def int_of_def get_or_fetch_def
                  except_NotFound_def bind_def emit_def await_def returns_def
                  pair_command_def who_option_def whom_option_def sample_env_def
                  prepared_state_def)
  show "SlashCommand_private_invoke sample_env mention_command
       (prepared_state ''mention'' [(''who'', PyStr ''42''), (''who'', PyStr ''43'')])
   = (\<lparr>ctx = \<lparr>command = Some ''mention'', command_failed = False,
              data_options = [(''who'', PyStr ''42''), (''who'', PyStr ''43'')]\<rparr>,
       trace = [Fetched ''member'' 42, Fetched ''role'' 42,
                Fetched ''member'' 43, Fetched ''role'' 43,
                Callback_called [(Some ''who'', PyEntity ''role'' 43)]]\<rparr>,
      Inr PyNone)"
    by (simp add: SlashCommand_private_invoke_def invoke_arg_def int_of_def get_or_fetch_def
                  except_NotFound_def bind_def emit_def await_def returns_def
                  call_callback_def quiet_callback_def
                  mention_command_def who_option_def sample_env_def prepared_state_def)
qed

section \<open>Properties of subcommand groups\<close>

lemma command_group_child_parent:
  "command_group case_of from_datatype self nm desc = (self', Inr child) \<Longrightarrow>
     parent_group child = Some (as_option self)"
  by (auto simp: command_group_def SubCommandGroup_init_def Option_init_def
           split: if_splits sum.splits)

text \<open>
  Claim C8. On a group whose \<^verbatim>\<open>parent_group\<close> is set, \<^verbatim>\<open>command_group\<close> raises and leaves
  the group as it was: no child is built, none is appended. Every group that
  \<^verbatim>\<open>command_group\<close> does build has its parent set, so it refuses a further level.
\<close>

theorem command_group_nested_once:
  "(parent_group self \<noteq> None \<longrightarrow>
      command_group case_of from_datatype self nm desc
        = (self, Inl (Exception ''Subcommands can only be nested once'')))
   \<and> (command_group case_of from_datatype self nm desc = (self', Inr child) \<longrightarrow>
      command_group case_of from_datatype child nm2 desc2
        = (child, Inl (Exception ''Subcommands can only be nested once'')))"
proof (intro conjI impI)
  assume "parent_group self \<noteq> None"
  then show "command_group case_of from_datatype self nm desc
        = (self, Inl (Exception ''Subcommands can only be nested once''))"
    by (simp add: command_group_def)
next
  assume "command_group case_of from_datatype self nm desc = (self', Inr child)"
  then have "parent_group child \<noteq> None"
    by (simp add: command_group_child_parent)
  then show "command_group case_of from_datatype child nm2 desc2
        = (child, Inl (Exception ''Subcommands can only be nested once''))"
    by (simp add: command_group_def)
qed

text \<open>
  A nested group refuses a child; a top-level group accepts one, which then refuses its
  own.
\<close>

theorem command_group_nested_once_witness:
  "parent_group nested_group \<noteq> None
   \<and> command_group sample_case_of sample_from_datatype nested_group (PyStr ''deeper'') (PyStr ''Too deep'')
       = (nested_group, Inl (Exception ''Subcommands can only be nested once''))
   \<and> snd (command_group sample_case_of sample_from_datatype top_group (PyStr ''inner'') (PyStr ''Inner group''))
       = Inr nested_group
   \<and> command_group sample_case_of sample_from_datatype nested_group (PyStr ''x'') (PyStr ''y'')
       = (nested_group, Inl (Exception ''Subcommands can only be nested once''))"
proof -
  have p: "parent_group nested_group \<noteq> None"
    by (simp add: nested_group_def)
  have c: "command_group sample_case_of sample_from_datatype top_group (PyStr ''inner'') (PyStr ''Inner group'')
             = (SubCommandGroup (as_option top_group) [Subgroup nested_group] None None,
                Inr nested_group)"
    by (simp add: command_group_def SubCommandGroup_init_def Option_init_def
                  validate_chat_input_name_def validate_chat_input_description_def
                  str_islower_def as_name_arg_def sample_case_of_def
                  top_group_def nested_group_def)
  from p c
    command_group_nested_once
      [where self = nested_group and case_of = sample_case_of
         and from_datatype = sample_from_datatype
         and nm = "PyStr ''deeper''" and desc = "PyStr ''Too deep''", THEN conjunct1]
    command_group_nested_once
      [where self = top_group and case_of = sample_case_of
         and from_datatype = sample_from_datatype
         and nm = "PyStr ''inner''" and desc = "PyStr ''Inner group''"
         and child = nested_group and ?nm2.0 = "PyStr ''x''" and ?desc2.0 = "PyStr ''y''",
       THEN conjunct2]
  show ?thesis by simp
qed

section \<open>Properties of context-menu commands\<close>

text \<open>
  Claim C9. Whatever keyword arguments the constructor is given, a description among
  them included, a context-menu command that is constructed has the empty description,
  and its name is the given one or the function's. The wire dictionary of a user command
  is its name, the empty description and type 2; that of a message command has type 3.
\<close>

theorem ContextMenuCommand_description_empty:
  assumes "ContextMenuCommand_init cls func kwargs = Inr self"
  shows "ApplicationCommand.description self = []
    \<and> name self = (case kw_name kwargs of Some (PyStr n) \<Rightarrow> n | _ \<Rightarrow> func_name func)
    \<and> (cls = UserCommand_class \<longrightarrow>
         ContextMenuCommand_to_dict self
           = Inr [(''name'', PyStr (name self)), (''description'', PyStr []), (''type'', PyInt 2)])
    \<and> (cls = MessageCommand_class \<longrightarrow>
         ContextMenuCommand_to_dict self
           = Inr [(''name'', PyStr (name self)), (''description'', PyStr []), (''type'', PyInt 3)])"
  using assms
  by (auto simp: ContextMenuCommand_init_def ContextMenuCommand_to_dict_def Let_def
           split: if_splits option.splits pyval.splits sum.splits)

text \<open>
  A user command and a message command built from the same function, with a description
  supplied: both are constructed, and their dictionaries carry the empty description.
\<close>

theorem ContextMenuCommand_description_empty_witness:
  "(\<exists>self. ContextMenuCommand_init UserCommand_class report_function
              \<lparr>kw_name = Some (PyStr ''Report''), kw_description = Some (PyStr ''ignored''),
               kw_guild_ids = None, kw_checks = None\<rparr> = Inr self
           \<and> ContextMenuCommand_to_dict self
               = Inr [(''name'', PyStr ''Report''), (''description'', PyStr []),
                      (''type'', PyInt 2)])
   \<and> (\<exists>self. ContextMenuCommand_init MessageCommand_class report_function
              \<lparr>kw_name = None, kw_description = Some (PyStr ''ignored''),
               kw_guild_ids = None, kw_checks = None\<rparr> = Inr self
           \<and> ContextMenuCommand_to_dict self
               = Inr [(''name'', PyStr ''report''), (''description'', PyStr []),
                      (''type'', PyInt 3)])"
proof -
  have u: "ContextMenuCommand_init UserCommand_class report_function
              \<lparr>kw_name = Some (PyStr ''Report''), kw_description = Some (PyStr ''ignored''),
               kw_guild_ids = None, kw_checks = None\<rparr>
           = Inr \<lparr>name = ''Report'', description = [], callback = report_function,
                  guild_ids = None, cog = None, checks = [], before_invoke_hook = None,
                  after_invoke_hook = None, on_error = None,
                  command_class = UserCommand_class\<rparr>"
    by (simp add: ContextMenuCommand_init_def validate_parameters_def report_function_def)
  have m: "ContextMenuCommand_init MessageCommand_class report_function
              \<lparr>kw_name = None, kw_description = Some (PyStr ''ignored''),
               kw_guild_ids = None, kw_checks = None\<rparr>
           = Inr \<lparr>name = ''report'', description = [], callback = report_function,
                  guild_ids = None, cog = None, checks = [], before_invoke_hook = None,
                  after_invoke_hook = None, on_error = None,
                  command_class = MessageCommand_class\<rparr>"
    by (simp add: ContextMenuCommand_init_def validate_parameters_def report_function_def)
  have n: "func_name report_function = ''report''"
    by (simp add: report_function_def)
  from u m ContextMenuCommand_description_empty [OF u]
    ContextMenuCommand_description_empty [OF m]
  show ?thesis by (simp add: n)
qed

section \<open>Properties of slash command equality\<close>

text \<open>
  Claim C10. A slash command equals another object exactly when that object is a slash
  command with the same name and the same description; it equals no context-menu command,
  group or plain value; and changing the callback, the guild ids, the checks and the
  options of a command leaves it equal to the original.
\<close>

theorem SlashCommand_eq_name_description:
  "SlashCommand_eq a (SlashCommand_object b)
     = (name b = name a \<and> ApplicationCommand.description b = ApplicationCommand.description a)
   \<and> \<not> SlashCommand_eq a (ContextMenuCommand_object m)
   \<and> \<not> SlashCommand_eq a (SubCommandGroup_object g)
   \<and> \<not> SlashCommand_eq a (Value_object v)
   \<and> SlashCommand_eq a
        (SlashCommand_object
           (a\<lparr>callback := cb, guild_ids := gids, checks := cs, options := opts\<rparr>))"
  by (simp add: SlashCommand_eq_def)

end
